theory Spec2Isabelle
  imports Complex_Main "HOL-Library.Multiset"
begin

section \<open>Errors and small helpers\<close>

text \<open>
  The Python exceptions the modelled functions can raise. A raise is the value
  \<open>Inl e\<close>; a normal return is \<open>Inr v\<close>.
\<close>

datatype error = ValueError | IndexError | KeyError | RuntimeError
  | ZeroDivisionError | UnboundLocalError

text \<open>
  A loop whose body can raise: the results of the iterations in order, or the
  first exception.
\<close>

fun collect :: "(error + 'a) list \<Rightarrow> error + 'a list" where
  "collect [] = Inr []"
| "collect (Inl e # rs) = Inl e"
| "collect (Inr v # rs) = (case collect rs of Inl e \<Rightarrow> Inl e | Inr vs \<Rightarrow> Inr (v # vs))"

text \<open>Python's \<open>xs[:k]\<close>: a negative \<open>k\<close> counts from the end.\<close>

definition py_take :: "int \<Rightarrow> 'a list \<Rightarrow> 'a list" where
  "py_take k xs = (if 0 \<le> k then take (nat k) xs else take (nat (int (length xs) + k)) xs)"

text \<open>
  Python floats are IEEE 754 doubles, and a product of two of them is the exact
  product rounded to the nearest double: \<open>0.07 * 100\<close> is
  \<open>7.000000000000001\<close>, and \<open>10 * 0.1\<close> is \<open>1.0\<close> although the double written
  \<open>0.1\<close> is above one tenth. A float is modelled by the real number it stands
  for, and the floating-point product is a parameter \<open>fmul\<close> of every function
  that multiplies floats: \<open>fmul a b\<close> is the double that \<open>a * b\<close> evaluates to.
  Nothing is assumed of the rounding. An \<open>int\<close> is converted exactly (the
  counts at hand are far below \<open>2\<^sup>5\<^sup>3\<close>), and Python compares an \<open>int\<close> with a
  float by their exact values.
\<close>

type_synonym float_product = "real \<Rightarrow> real \<Rightarrow> real"

section \<open>The composite sample synthesizer: \<open>produce_addition_set\<close>\<close>

text \<open>
  \<open>selected_digits\<close> is either one list of digits or a list of such lists; the
  source tells them apart with \<open>isinstance(selected_digits[0], list)\<close>.
\<close>

datatype selected_digits = Flat "int list" | Nested "int list list"

text \<open>
  Lines 185-191 of \<open>produce_addition_set\<close>, repeated as lines 518-521 of
  \<open>generate_data\<close>. Reading \<open>selected_digits[0]\<close> of an empty list raises
  \<open>IndexError\<close>; \<open>range(num_operands)\<close> is empty for a negative count.
\<close>

definition operand_lists :: "selected_digits \<Rightarrow> int \<Rightarrow> error + int list list" where
  "operand_lists sd num_operands =
     (case sd of
        Flat ds \<Rightarrow>
          (if ds = [] then Inl IndexError else Inr (replicate (nat num_operands) ds))
      | Nested dss \<Rightarrow>
          (if dss = [] then Inl IndexError
           else if int (length dss) \<noteq> num_operands then Inl ValueError
           else Inr dss))"

text \<open>
  \<open>dict((dig, idx) for (idx, dig) in enumerate(operand_digits))\<close>: the pairs are
  inserted in order, so a repeated digit keeps its last position.
\<close>

definition operand_remap :: "int list \<Rightarrow> (int \<rightharpoonup> nat)" where
  "operand_remap operand_digits =
     fold (\<lambda>(idx, dig) m. m(dig \<mapsto> idx)) (enumerate 0 operand_digits) Map.empty"

text \<open>
  The digit pool of one operand (lines 200-205): the positions of \<open>y\<close> whose
  digit is allowed, then the rows of \<open>X\<close> and \<open>y\<close> at those positions. Indexing
  \<open>X\<close> beyond its length raises \<open>IndexError\<close>.
\<close>

definition filter_idxs :: "int list \<Rightarrow> int list \<Rightarrow> nat list" where
  "filter_idxs y allowed_digits =
     map fst (filter (\<lambda>(idx, digit). digit \<in> set allowed_digits) (enumerate 0 y))"

definition rows_at :: "'a list \<Rightarrow> nat list \<Rightarrow> error + 'a list" where
  "rows_at X idxs =
     (if list_all (\<lambda>i. i < length X) idxs then Inr (map (\<lambda>i. X ! i) idxs)
      else Inl IndexError)"

definition operand_pool :: "'img list \<Rightarrow> int list \<Rightarrow> int list \<Rightarrow> error + ('img list \<times> int list)" where
  "operand_pool X y allowed_digits =
     (case rows_at X (filter_idxs y allowed_digits) of
        Inl e \<Rightarrow> Inl e
      | Inr total_samples \<Rightarrow>
          Inr (total_samples, map (\<lambda>i. y ! i) (filter_idxs y allowed_digits)))"

text \<open>
  \<open>np.random.choice(n)\<close> raises \<open>ValueError\<close> for \<open>n = 0\<close> and otherwise
  returns an index below \<open>n\<close>. The generator is a parameter of the model: \<open>r\<close> is
  the raw draw made at this call, reduced into the range.
\<close>

definition np_random_choice :: "nat \<Rightarrow> nat \<Rightarrow> error + nat" where
  "np_random_choice r n = (if n = 0 then Inl ValueError else Inr (r mod n))"

text \<open>\<open>torch.nn.functional.one_hot\<close> rejects a class index outside \<open>num_classes\<close>.\<close>

definition one_hot :: "nat \<Rightarrow> nat \<Rightarrow> error + int list" where
  "one_hot idx num_classes =
     (if idx < num_classes then Inr (map (\<lambda>i. if i = idx then 1 else 0) [0..<num_classes])
      else Inl RuntimeError)"

fun np_max :: "int list \<Rightarrow> error + int" where
  "np_max [] = Inl ValueError"
| "np_max (d # ds) = Inr (fold max ds d)"

definition py_int :: "bool \<Rightarrow> int" where
  "py_int b = (if b then 1 else 0)"

text \<open>The concept contribution of one operand (lines 224-246).\<close>

definition concept_vals :: "bool \<Rightarrow> int list \<Rightarrow> (int \<rightharpoonup> nat) \<Rightarrow> int \<Rightarrow> error + int list" where
  "concept_vals even_concepts operand_digits remap label =
     (if length operand_digits > 2 then
        (if even_concepts then
           (case remap label of
              None \<Rightarrow> Inl KeyError
            | Some idx \<Rightarrow> Inr [py_int (idx mod 2 = 0)])
         else
           (case remap label of
              None \<Rightarrow> Inl KeyError
            | Some idx \<Rightarrow> one_hot idx (length operand_digits)))
      else
        (if even_concepts then Inr [py_int (label mod 2 = 0)]
         else
           (case np_max operand_digits of
              Inl e \<Rightarrow> Inl e
            | Inr max_bound \<Rightarrow> Inr [py_int (label = max_bound)])))"

text \<open>
  One pass of the inner loop (lines 221-248) for one operand: the drawn image,
  its concept contribution and its raw digit label.
\<close>

definition draw_operand ::
  "bool \<Rightarrow> int list \<times> (int \<rightharpoonup> nat) \<times> 'img list \<times> int list \<Rightarrow> nat
     \<Rightarrow> error + ('img \<times> int list \<times> int)" where
  "draw_operand even_concepts opnd r =
     (case opnd of (operand_digits, remap, total_samples, total_labels) \<Rightarrow>
        (case np_random_choice r (length total_samples) of
           Inl e \<Rightarrow> Inl e
         | Inr img_idx \<Rightarrow>
             if length total_labels \<le> img_idx then Inl IndexError
             else
               (case concept_vals even_concepts operand_digits remap (total_labels ! img_idx) of
                  Inl e \<Rightarrow> Inl e
                | Inr cv \<Rightarrow> Inr (total_samples ! img_idx, cv, total_labels ! img_idx))))"

text \<open>The label transform (lines 255-260): \<open>if\<close>, \<open>elif\<close>, \<open>else\<close>.\<close>

definition task_label :: "bool \<Rightarrow> real option \<Rightarrow> int \<Rightarrow> int" where
  "task_label even_labels threshold_labels sample_label =
     (if even_labels then py_int (sample_label mod 2 = 0)
      else (case threshold_labels of
              Some t \<Rightarrow> py_int (t \<le> real_of_int sample_label)
            | None \<Rightarrow> sample_label))"

text \<open>
  One composite sample (the body of the loop at line 210). \<open>draws\<close> holds the
  raw draws of this sample, one per operand. \<open>np.concatenate\<close> of no operands
  raises \<open>ValueError\<close>. The sample is the list of its operand images (the
  concatenation axis only arranges pixels), its task label and its concept
  vector.
\<close>

definition make_sample ::
  "bool \<Rightarrow> bool \<Rightarrow> real option \<Rightarrow> (int list \<times> (int \<rightharpoonup> nat) \<times> 'img list \<times> int list) list
     \<Rightarrow> nat list \<Rightarrow> error + ('img list \<times> int \<times> int list)" where
  "make_sample even_concepts even_labels threshold_labels opnds draws =
     (case collect (map2 (draw_operand even_concepts) opnds draws) of
        Inl e \<Rightarrow> Inl e
      | Inr parts \<Rightarrow>
          if parts = [] then Inl ValueError
          else Inr (map fst parts,
                    task_label even_labels threshold_labels
                      (sum_list (map (\<lambda>p. snd (snd p)) parts)),
                    concat (map (\<lambda>p. fst (snd p)) parts)))"

record pas_args =
  dataset_size :: int
  num_operands :: int
  selected_digits :: selected_digits
  sample_concepts :: "int list option"
  even_concepts :: bool
  even_labels :: bool
  threshold_labels :: "real option"
  concept_transform :: "(int list list \<Rightarrow> error + int list list) option"

text \<open>
  Lines 182-264: the operand check, the pools, the sampling loop and the three
  concatenations. \<open>rng s pos\<close> is the raw draw of \<open>np.random.choice\<close> for
  sample \<open>s\<close> at operand position \<open>pos\<close>. Concatenating no samples raises \<open>ValueError\<close>.
\<close>

definition synthesize ::
  "'img list \<Rightarrow> int list \<Rightarrow> pas_args \<Rightarrow> (nat \<Rightarrow> nat \<Rightarrow> nat)
     \<Rightarrow> error + ('img list list \<times> int list \<times> int list list)" where
  "synthesize X y a rng =
     (case operand_lists (selected_digits a) (num_operands a) of
        Inl e \<Rightarrow> Inl e
      | Inr sd \<Rightarrow>
          (case collect (map (operand_pool X y) sd) of
             Inl e \<Rightarrow> Inl e
           | Inr pools \<Rightarrow>
               (case collect
                       (map (\<lambda>s. make_sample (even_concepts a) (even_labels a) (threshold_labels a)
                                    (zip sd (zip (map operand_remap sd) pools))
                                    (map (rng s) [0..<length sd]))
                          [0..<nat (dataset_size a)]) of
                  Inl e \<Rightarrow> Inl e
                | Inr samples \<Rightarrow>
                    if samples = [] then Inl ValueError
                    else Inr (map fst samples,
                              map (\<lambda>t. fst (snd t)) samples,
                              map (\<lambda>t. snd (snd t)) samples))))"

text \<open>
  \<open>sum_train_concepts[:, sample_concepts]\<close>: numpy column selection by a list of
  indices, negative ones counted from the end, \<open>IndexError\<close> out of range.
\<close>

definition select_columns :: "int list \<Rightarrow> 'a list list \<Rightarrow> error + 'a list list" where
  "select_columns idxs rows =
     (let width = int (length (hd rows)) in
      if list_all (\<lambda>i. - width \<le> i \<and> i < width) idxs
      then Inr (map (\<lambda>row. map (\<lambda>i. row ! nat (if i < 0 then width + i else i)) idxs) rows)
      else Inl IndexError)"

text \<open>
  \<open>produce_addition_set\<close>: the synthesis followed by the post-processing of the
  concepts (lines 274-277). The post-processing of the images (channel
  replication, transpose, division by 255, Gaussian noise, clipping) changes
  pixel values only and is not part of the model.
\<close>

definition produce_addition_set ::
  "'img list \<Rightarrow> int list \<Rightarrow> pas_args \<Rightarrow> (nat \<Rightarrow> nat \<Rightarrow> nat)
     \<Rightarrow> error + ('img list list \<times> int list \<times> int list list)" where
  "produce_addition_set X y a rng =
     (case synthesize X y a rng of
        Inl e \<Rightarrow> Inl e
      | Inr (sum_train_samples, sum_train_labels, sum_train_concepts) \<Rightarrow>
          (case (case sample_concepts a of
                   None \<Rightarrow> Inr sum_train_concepts
                 | Some idxs \<Rightarrow> select_columns idxs sum_train_concepts) of
             Inl e \<Rightarrow> Inl e
           | Inr cs \<Rightarrow>
               (case (case concept_transform a of None \<Rightarrow> Inr cs | Some f \<Rightarrow> f cs) of
                  Inl e \<Rightarrow> Inl e
                | Inr cs' \<Rightarrow> Inr (sum_train_samples, sum_train_labels, cs'))))"

text \<open>
  The raw digit labels of the operands chosen for sample \<open>s\<close>, read off the
  pools directly: operand \<open>pos\<close> contributes the label at the drawn position of its
  own pool.
\<close>

definition chosen_labels :: "int list \<Rightarrow> int list list \<Rightarrow> (nat \<Rightarrow> nat \<Rightarrow> nat) \<Rightarrow> nat \<Rightarrow> int list" where
  "chosen_labels y sd rng s =
     map (\<lambda>pos. let total_labels = map (\<lambda>i. y ! i) (filter_idxs y (sd ! pos))
                in total_labels ! (rng s pos mod length total_labels))
       [0..<length sd]"

text \<open>
  The width of one operand's concept contribution, by the length of its list of
  allowed digits: \<open>len(operand_digits)\<close> is what lines 224 and 232 read,
  so a digit listed twice counts twice.
\<close>

definition operand_width :: "bool \<Rightarrow> int list \<Rightarrow> nat" where
  "operand_width ec allowed_digits =
     (if ec then 1
      else if length allowed_digits \<le> 2 then 1 else length allowed_digits)"

text \<open>
  The width as claim C2 words it, by the size of the set of allowed digits.
\<close>

definition operand_width_of_set :: "bool \<Rightarrow> int list \<Rightarrow> nat" where
  "operand_width_of_set ec allowed_digits =
     (if ec then 1
      else if card (set allowed_digits) \<le> 2 then 1 else card (set allowed_digits))"

section \<open>The semi-supervised label propagator: \<open>get_ss_components\<close>\<close>

text \<open>
  \<open>class_count\<close> (lines 36-38) and \<open>labeled_count\<close> are \<open>defaultdict(int)\<close>:
  total functions that are 0 where nothing was stored.
\<close>

definition class_count :: "'c list \<Rightarrow> 'c \<Rightarrow> nat" where
  "class_count ys = fold (\<lambda>y cc. cc(y := cc y + 1)) ys (\<lambda>_. 0)"

text \<open>
  The stratification loop (lines 40-46), one flag per sample in dataset order.
  \<open>labeled_ratio\<close> is a Python float and \<open>labeled_ratio * class_count[y]\<close> is
  the floating-point product \<open>fmul\<close>; the count, an \<open>int\<close>, is compared with it
  exactly.
\<close>

fun mark_labeled ::
  "float_product \<Rightarrow> real \<Rightarrow> ('c \<Rightarrow> nat) \<Rightarrow> ('c \<Rightarrow> nat) \<Rightarrow> 'c list \<Rightarrow> bool list" where
  "mark_labeled fmul labeled_ratio cc labeled_count [] = []"
| "mark_labeled fmul labeled_ratio cc labeled_count (y # ys) =
     (if real (labeled_count y) < fmul labeled_ratio (real (cc y))
      then True # mark_labeled fmul labeled_ratio cc (labeled_count(y := labeled_count y + 1)) ys
      else False # mark_labeled fmul labeled_ratio cc labeled_count ys)"

text \<open>
  \<open>l_choice\<close> (lines 33-49): the keys are the sample positions in order, so the
  dictionary is the list of its values.
\<close>

definition l_choice_of :: "float_product \<Rightarrow> bool \<Rightarrow> real \<Rightarrow> 'c list \<Rightarrow> bool list" where
  "l_choice_of fmul training labeled_ratio ys =
     (if training then mark_labeled fmul labeled_ratio (class_count ys) (\<lambda>_. 0) ys
      else replicate (length ys) True)"

text \<open>Reading a \<open>defaultdict(bool)\<close>: \<open>False\<close> for a key never stored.\<close>

definition l_get :: "bool list \<Rightarrow> nat \<Rightarrow> bool" where
  "l_get l_choice idx = (if idx < length l_choice then l_choice ! idx else False)"

record nbr_info =
  indices :: "nat list"
  weights :: "real list"

text \<open>
  \<open>nearest_neighbors\<close> (lines 16-31). scikit-learn's index is a parameter:
  \<open>kneighbors fitted k q\<close> is the answer to the query \<open>q\<close> of an index fitted on
  \<open>fitted\<close>, as \<open>k\<close> pairs of a cosine distance and a position in \<open>fitted\<close>.
  Asking for more neighbours than there are fitted samples raises
  \<open>ValueError\<close>. The weights are computed in real arithmetic.
\<close>

definition nearest_neighbors ::
  "('x list \<Rightarrow> nat \<Rightarrow> 'x \<Rightarrow> (real \<times> nat) list) \<Rightarrow> 'x list \<Rightarrow> bool list \<Rightarrow> nat
     \<Rightarrow> error + nbr_info list" where
  "nearest_neighbors kneighbors xs l_choice k =
     (let features = xs;
          labeled_features =
            map (\<lambda>idx. features ! idx) (filter (\<lambda>idx. l_get l_choice idx) [0..<length xs])
      in if length labeled_features < k then Inl ValueError
         else Inr (map (\<lambda>q. let found = kneighbors labeled_features k q;
                                 w = map (\<lambda>(d, i). 1 / (d + 1 / 1000000)) found
                             in \<lparr>indices = map snd found,
                                 weights = map (\<lambda>v. v / sum_list w) w\<rparr>)
                     features))"

text \<open>
  \<open>get_ss_components\<close>. The logging statement at line 55 divides by
  \<open>len(l_choice)\<close>. The loop at lines 60-72 runs over \<open>i\<close> but reads
  \<open>l_choice[idx]\<close> and \<open>nbrs[idx]\<close>: \<open>idx\<close> is the variable of the counting loop at
  line 52, which left it at \<open>len(l_choice) - 1\<close>. The gathered concepts are
  \<open>cs[i]\<close> for the neighbour positions \<open>i\<close> as the index returned them.
\<close>

definition get_ss_components ::
  "float_product \<Rightarrow> ('x list \<Rightarrow> nat \<Rightarrow> 'x \<Rightarrow> (real \<times> nat) list) \<Rightarrow> 'x list \<Rightarrow> 'c list \<Rightarrow> 'v list
     \<Rightarrow> real \<Rightarrow> bool
     \<Rightarrow> error + ('x list \<times> 'c list \<times> 'v list \<times> bool list \<times> 'v list list \<times> real list list)" where
  "get_ss_components fmul kneighbors xs ys cs labeled_ratio training =
     (let l_choice = l_choice_of fmul training labeled_ratio ys in
      if length l_choice = 0 then Inl ZeroDivisionError
      else
        let idx = length l_choice - 1 in
        (case nearest_neighbors kneighbors xs l_choice 2 of
           Inl e \<Rightarrow> Inl e
         | Inr nbrs \<Rightarrow>
             (case collect
                     (map (\<lambda>i. if length nbrs \<le> idx then Inl IndexError
                               else
                                 (case rows_at cs (indices (nbrs ! idx)) of
                                    Inl e \<Rightarrow> Inl e
                                  | Inr nbr_concepts \<Rightarrow>
                                      Inr (l_get l_choice idx, nbr_concepts, weights (nbrs ! idx))))
                        [0..<length ys]) of
                Inl e \<Rightarrow> Inl e
              | Inr rows \<Rightarrow>
                  Inr (xs, ys, cs, map fst rows, map (\<lambda>r. fst (snd r)) rows,
                       map (\<lambda>r. snd (snd r)) rows))))"

text \<open>
  What claim C3 asks of the neighbour concepts of one sample: the positions
  the index returns are positions in the labeled subset, and are mapped back
  to positions in the whole array before \<open>cs\<close> is read.
\<close>

definition labeled_positions :: "bool list \<Rightarrow> nat list" where
  "labeled_positions l_choice = filter (\<lambda>idx. l_get l_choice idx) [0..<length l_choice]"

definition mapped_back_concepts :: "'v list \<Rightarrow> bool list \<Rightarrow> nat list \<Rightarrow> 'v list" where
  "mapped_back_concepts cs l_choice nbr_indices =
     map (\<lambda>i. cs ! (labeled_positions l_choice ! i)) nbr_indices"

section \<open>The dataset orchestrator: \<open>generate_data\<close>\<close>

text \<open>
  The configuration is a dictionary read with \<open>config.get(key, default)\<close>: a
  record of optional entries, \<open>None\<close> for a key that is absent.
\<close>

record config =
  cfg_selected_digits :: "selected_digits option"
  cfg_num_operands :: "int option"
  cfg_even_concepts :: "bool option"
  cfg_even_labels :: "bool option"
  cfg_threshold_labels :: "real option"
  cfg_sampling_percent :: "real option"
  cfg_sampling_groups :: "bool option"
  cfg_weight_loss :: "bool option"

definition config_get :: "'a option \<Rightarrow> 'a \<Rightarrow> 'a" where
  "config_get entry dflt = (case entry of None \<Rightarrow> dflt | Some v \<Rightarrow> v)"

text \<open>
  The concept-group map is a dictionary from the operand index to the list of
  its concept columns; as its order of insertion is read by \<open>items()\<close>, it is a
  list of pairs. The loop at lines 533-537 adds one group per operand and
  counts the tasks; \<open>np.max\<close> of an empty list raises.
\<close>

fun add_groups ::
  "nat \<Rightarrow> int list list \<Rightarrow> nat \<Rightarrow> (nat \<times> nat list) list \<Rightarrow> int
     \<Rightarrow> error + (nat \<times> (nat \<times> nat list) list \<times> int)" where
  "add_groups operand_idx [] num_concepts concept_group_map n_tasks =
     Inr (num_concepts, concept_group_map, n_tasks)"
| "add_groups operand_idx (used_operand_digits # rest) num_concepts concept_group_map n_tasks =
     (let num_curr_concepts =
            (if length used_operand_digits > 2 then length used_operand_digits else 1)
      in case np_max used_operand_digits of
           Inl e \<Rightarrow> Inl e
         | Inr m \<Rightarrow>
             add_groups (Suc operand_idx) rest (num_concepts + num_curr_concepts)
               (concept_group_map
                  @ [(operand_idx, [num_concepts..<num_concepts + num_curr_concepts])])
               (n_tasks + m))"

text \<open>
  Lines 526-537: the concept count, the group map and \<open>n_tasks\<close>, which the
  even-concepts branch does not assign (\<open>None\<close>: the name is unbound).
\<close>

definition initial_groups ::
  "bool \<Rightarrow> int \<Rightarrow> int list list \<Rightarrow> error + (int \<times> (nat \<times> nat list) list \<times> int option)" where
  "initial_groups ec n_operands sd =
     (if ec then Inr (n_operands, map (\<lambda>i. (i, [i])) [0..<nat n_operands], None)
      else
        (case add_groups 0 sd 0 [] 1 of
           Inl e \<Rightarrow> Inl e
         | Inr (num_concepts, concept_group_map, n_tasks) \<Rightarrow>
             Inr (int num_concepts, concept_group_map, Some n_tasks)))"

text \<open>
  The cache files of the subsampler. A file is named after the directory, the
  kind of selection, \<open>sampling_percent\<close> and \<open>num_operands\<close>; it holds the
  sorted indices \<open>np.save\<close> wrote.
\<close>

datatype file_kind = Selected_groups | Selected_concepts

type_synonym file_name = "string \<times> file_kind \<times> real \<times> int"

type_synonym files = "file_name \<Rightarrow> nat list option"

text \<open>
  Lines 554-560 and again 573-579: load the file if it exists and no rerun is
  asked, else take the first \<open>new_n\<close> entries of a random permutation, sort
  them and save them. \<open>permutation n\<close> stands for \<open>np.random.permutation(n)\<close>.
\<close>

definition load_or_select ::
  "file_name \<Rightarrow> bool \<Rightarrow> int \<Rightarrow> nat \<Rightarrow> (nat \<Rightarrow> nat list) \<Rightarrow> files \<Rightarrow> nat list \<times> files" where
  "load_or_select file rerun new_n n permutation fs =
     (case (if rerun then None else fs file) of
        Some stored \<Rightarrow> (stored, fs)
      | None \<Rightarrow>
          (let selected = sort (py_take new_n (permutation n))
           in (selected, fs(file \<mapsto> selected))))"

text \<open>
  The subsampler (lines 548-579): the selection (of groups in group mode, of
  concepts otherwise), the selected concepts and the new concept count. The
  products with \<open>sampling_percent\<close> are the floating-point products \<open>fmul\<close>, and
  \<open>int(np.ceil(v))\<close> is the ceiling of the double \<open>v\<close>.
\<close>

definition subsample ::
  "float_product \<Rightarrow> string \<Rightarrow> real \<Rightarrow> bool \<Rightarrow> int \<Rightarrow> bool \<Rightarrow> (nat \<Rightarrow> nat list) \<Rightarrow> (nat \<times> nat list) list \<Rightarrow> int
     \<Rightarrow> files \<Rightarrow> (error + (nat list \<times> nat list \<times> int)) \<times> files" where
  "subsample fmul root_dir sampling_percent sampling_groups n_operands rerun permutation
       concept_group_map num_concepts fs =
     (if sampling_groups then
        (let new_n_groups = \<lceil>fmul (real (length concept_group_map)) sampling_percent\<rceil>;
             (selected_groups, fs') =
               load_or_select (root_dir, Selected_groups, sampling_percent, n_operands) rerun
                 new_n_groups (length concept_group_map) permutation fs
         in case rows_at (map snd concept_group_map) selected_groups of
              Inl e \<Rightarrow> (Inl e, fs')
            | Inr chosen \<Rightarrow>
                (let selected_concepts = sort (remdups (concat chosen))
                 in (Inr (selected_groups, selected_concepts, int (length selected_concepts)),
                     fs')))
      else
        (let new_n_concepts = \<lceil>fmul (real_of_int num_concepts) sampling_percent\<rceil>;
             (selected_concepts, fs') =
               load_or_select (root_dir, Selected_concepts, sampling_percent, n_operands) rerun
                 new_n_concepts (nat num_concepts) permutation fs
         in (Inr (selected_concepts, selected_concepts, new_n_concepts), fs')))"

text \<open>
  \<open>dict((y, x) for (x, y) in enumerate(selected_concepts))\<close> (line 583).
\<close>

definition position_dict :: "'a list \<Rightarrow> ('a \<rightharpoonup> nat)" where
  "position_dict xs = fold (\<lambda>(x, y) m. m(y \<mapsto> x)) (enumerate 0 xs) Map.empty"

text \<open>
  The rebuilt group map (lines 582-596). A group is added when the first of its
  selected concepts is met, with the new positions of those of its members that
  are selected; \<open>remap[other_concept]\<close> is read for selected concepts only, so
  the key is there.
\<close>

definition remapped_members :: "nat list \<Rightarrow> nat list \<Rightarrow> nat list" where
  "remapped_members selected_concepts group_concepts =
     map (\<lambda>other_concept. the (position_dict selected_concepts other_concept))
       (filter (\<lambda>other_concept. other_concept \<in> set selected_concepts) group_concepts)"

definition visit_group ::
  "nat list \<Rightarrow> nat \<Rightarrow> nat \<times> nat list \<Rightarrow> (nat \<times> nat list) list \<Rightarrow> (nat \<times> nat list) list" where
  "visit_group selected_concepts selected_concept grp new_concept_group =
     (case grp of (concept_group_name, group_concepts) \<Rightarrow>
        if selected_concept \<in> set group_concepts then
          (if concept_group_name \<in> fst ` set new_concept_group then new_concept_group
           else new_concept_group
                  @ [(concept_group_name, remapped_members selected_concepts group_concepts)])
        else new_concept_group)"

definition rebuild_groups :: "(nat \<times> nat list) list \<Rightarrow> nat list \<Rightarrow> (nat \<times> nat list) list" where
  "rebuild_groups concept_group_map selected_concepts =
     fold (\<lambda>selected_concept new_concept_group.
             fold (visit_group selected_concepts selected_concept) concept_group_map
               new_concept_group)
       selected_concepts []"

text \<open>
  \<open>generate_data\<close> up to its \<open>return\<close> statement (lines 516-652).
  \<open>load_mnist_addition\<close> builds the loaders from the MNIST files and the
  imbalance is a floating-point scan of the training loader: both are
  parameters, \<open>load_data\<close> taking the operand lists and the columns of the
  concept transform, \<open>imbalance_of\<close> the loaders and the concept count. The
  local variables that reach the \<open>return\<close> are the loaders, the imbalance,
  \<open>num_concepts\<close>, \<open>n_tasks\<close> (\<open>None\<close> while unbound) and the group map.
\<close>

definition before_return ::
  "float_product \<Rightarrow> (int list list \<Rightarrow> nat list option \<Rightarrow> error + 'dl) \<Rightarrow> ('dl \<Rightarrow> int \<Rightarrow> error + 'imb)
     \<Rightarrow> (nat \<Rightarrow> nat list) \<Rightarrow> config \<Rightarrow> string \<Rightarrow> bool \<Rightarrow> files
     \<Rightarrow> (error + ('dl \<times> 'imb option \<times> int \<times> int option \<times> (nat \<times> nat list) list)) \<times> files" where
  "before_return fmul load_data imbalance_of permutation cfg root_dir rerun fs =
     (let n_operands = config_get (cfg_num_operands cfg) 32 in
      case operand_lists (config_get (cfg_selected_digits cfg) (Flat [0, 1])) n_operands of
        Inl e \<Rightarrow> (Inl e, fs)
      | Inr sd \<Rightarrow>
          (case initial_groups (config_get (cfg_even_concepts cfg) False) n_operands sd of
             Inl e \<Rightarrow> (Inl e, fs)
           | Inr (num_concepts, concept_group_map, n_tasks0) \<Rightarrow>
               (let n_tasks =
                      (if config_get (cfg_even_labels cfg) False \<or> cfg_threshold_labels cfg \<noteq> None
                       then Some 1 else n_tasks0);
                    sampling_percent = config_get (cfg_sampling_percent cfg) 1;
                    (sampled, fs') =
                      (if sampling_percent \<noteq> 1 then
                         (case subsample fmul root_dir sampling_percent
                                 (config_get (cfg_sampling_groups cfg) False) n_operands rerun
                                 permutation concept_group_map num_concepts fs of
                            (Inl e, fs') \<Rightarrow> (Inl e, fs')
                          | (Inr (selection, selected_concepts, new_n_concepts), fs') \<Rightarrow>
                              (Inr (new_n_concepts,
                                    rebuild_groups concept_group_map selected_concepts,
                                    Some selected_concepts), fs'))
                       else (Inr (num_concepts, concept_group_map, None), fs))
                in case sampled of
                     Inl e \<Rightarrow> (Inl e, fs')
                   | Inr (num_concepts', concept_group_map', transform_columns) \<Rightarrow>
                       (case load_data sd transform_columns of
                          Inl e \<Rightarrow> (Inl e, fs')
                        | Inr dl \<Rightarrow>
                            if config_get (cfg_weight_loss cfg) False then
                              (case imbalance_of dl num_concepts' of
                                 Inl e \<Rightarrow> (Inl e, fs')
                               | Inr imbalance \<Rightarrow>
                                   (Inr (dl, Some imbalance, num_concepts', n_tasks,
                                         concept_group_map'), fs'))
                            else (Inr (dl, None, num_concepts', n_tasks, concept_group_map'),
                                  fs')))))"

text \<open>
  \<open>generate_data\<close>: the \<open>return\<close> statement at line 653 reads \<open>n_tasks\<close>.
\<close>

definition generate_data ::
  "float_product \<Rightarrow> (int list list \<Rightarrow> nat list option \<Rightarrow> error + 'dl) \<Rightarrow> ('dl \<Rightarrow> int \<Rightarrow> error + 'imb)
     \<Rightarrow> (nat \<Rightarrow> nat list) \<Rightarrow> config \<Rightarrow> string \<Rightarrow> bool \<Rightarrow> files
     \<Rightarrow> (error + ('dl \<times> 'imb option \<times> (int \<times> int \<times> (nat \<times> nat list) list))) \<times> files" where
  "generate_data fmul load_data imbalance_of permutation cfg root_dir rerun fs =
     (case before_return fmul load_data imbalance_of permutation cfg root_dir rerun fs of
        (Inl e, fs') \<Rightarrow> (Inl e, fs')
      | (Inr (dl, imbalance, num_concepts, n_tasks, concept_group_map), fs') \<Rightarrow>
          (case n_tasks of
             None \<Rightarrow> (Inl UnboundLocalError, fs')
           | Some t \<Rightarrow> (Inr (dl, imbalance, (num_concepts, t, concept_group_map)), fs')))"


section \<open>The uncertainty injector: \<open>inject_uncertainty\<close>\<close>

text \<open>
  \<open>inject_uncertainty\<close> writes into arrays in place, so the tensors live in an
  explicit store: an address stands for the memory of one tensor, and two
  names that share memory are one address. A batch of images is a list (the
  samples) of lists (the operands) of images; what an image holds is of no
  concern here, and its type is a parameter. A concept tensor is a matrix, a
  label tensor a vector. Tensors are rectangular: all rows of a matrix are
  equally long. \<open>next_addr\<close> is the first address that is not in use.
\<close>

record 'img heap =
  img_at :: "nat \<Rightarrow> 'img list list"
  lab_at :: "nat \<Rightarrow> real list"
  con_at :: "nat \<Rightarrow> real list list"
  next_addr :: nat

definition alloc_img :: "'img list list \<Rightarrow> 'img heap \<Rightarrow> nat \<times> 'img heap" where
  "alloc_img v h =
     (next_addr h, h\<lparr>img_at := (img_at h)(next_addr h := v), next_addr := Suc (next_addr h)\<rparr>)"

definition alloc_lab :: "real list \<Rightarrow> 'img heap \<Rightarrow> nat \<times> 'img heap" where
  "alloc_lab v h =
     (next_addr h, h\<lparr>lab_at := (lab_at h)(next_addr h := v), next_addr := Suc (next_addr h)\<rparr>)"

definition alloc_con :: "real list list \<Rightarrow> 'img heap \<Rightarrow> nat \<times> 'img heap" where
  "alloc_con v h =
     (next_addr h, h\<lparr>con_at := (con_at h)(next_addr h := v), next_addr := Suc (next_addr h)\<rparr>)"

text \<open>
  A \<open>TensorDataset\<close> holds its tensors by reference: the addresses of the
  images, the labels and the concepts, and the number of further tensors (the
  datasets of \<open>load_mnist_addition\<close> have three more). A \<open>DataLoader\<close> holds its
  dataset and its batch size, which is positive.
\<close>

record dataset =
  ds_x :: nat
  ds_y :: nat
  ds_c :: nat
  ds_more :: nat

record loader =
  l_dataset :: dataset
  l_batch_size :: nat

text \<open>
  What the function takes from outside. \<open>1.0 - uncertain_width\<close> is a
  floating-point difference. \<open>uniform_draw low high t\<close> is what
  \<open>np.random.uniform(low, high)\<close> returns and \<open>randint_draw t\<close> the integer that
  \<open>np.random.randint\<close> reduces to its range, when \<open>t\<close> draws have been made
  since \<open>seed_everything(42)\<close>. The concept array is a \<open>float32\<close> array, so a
  value assigned to one of its entries is rounded by \<open>to_float32\<close>. The two
  mixtures of images are \<open>float32\<close> array arithmetic:
  \<open>mix_with_neg c img other\<close> is \<open>img * c + (1 - c) * other\<close> and
  \<open>mix_with_pos c img other\<close> is \<open>img * (1 - c) + c * other\<close>. Nothing is
  assumed of any of them.
\<close>

record 'img numerics =
  float_sub :: "real \<Rightarrow> real \<Rightarrow> real"
  uniform_draw :: "real \<Rightarrow> real \<Rightarrow> nat \<Rightarrow> real"
  randint_draw :: "nat \<Rightarrow> nat"
  to_float32 :: "real \<Rightarrow> real"
  mix_with_neg :: "real \<Rightarrow> 'img \<Rightarrow> 'img \<Rightarrow> 'img"
  mix_with_pos :: "real \<Rightarrow> 'img \<Rightarrow> 'img \<Rightarrow> 'img"

text \<open>
  A loop whose body can raise, on a state that outlives the exception: the
  state after the last iteration, or the exception and the state it left.
\<close>

fun run_loop :: "('a \<Rightarrow> 's \<Rightarrow> error option \<times> 's) \<Rightarrow> 'a list \<Rightarrow> 's \<Rightarrow> error option \<times> 's" where
  "run_loop body [] s = (None, s)"
| "run_loop body (a # as) s =
     (case body a s of
        (Some e, s') \<Rightarrow> (Some e, s')
      | (None, s') \<Rightarrow> run_loop body as s')"

text \<open>
  The assignments \<open>c_new[i, j] = v\<close> and \<open>x_new[i, k, :, :] = v\<close>, in place. The
  indices are in range where the function writes: \<open>i\<close> and \<open>j\<close> run over the
  shape of the concept array, and \<open>k\<close> was checked when the column started.
\<close>

definition write_concept :: "nat \<Rightarrow> nat \<Rightarrow> nat \<Rightarrow> real \<Rightarrow> 'img heap \<Rightarrow> 'img heap" where
  "write_concept ac i j v h =
     h\<lparr>con_at := (con_at h)(ac := (con_at h ac)[i := (con_at h ac ! i)[j := v]])\<rparr>"

definition write_image :: "nat \<Rightarrow> nat \<Rightarrow> nat \<Rightarrow> 'img \<Rightarrow> 'img heap \<Rightarrow> 'img heap" where
  "write_image ax i k v h =
     h\<lparr>img_at := (img_at h)(ax := (img_at h ax)[i := (img_at h ax ! i)[k := v]])\<rparr>"

text \<open>Lines 152-153: \<open>c_new[i, j] = int(c_new[i, j] >= 0.5)\<close>.\<close>

definition rethreshold :: "bool \<Rightarrow> nat \<Rightarrow> nat \<Rightarrow> nat \<Rightarrow> 'img heap \<Rightarrow> 'img heap" where
  "rethreshold threshold ac i j h =
     (if threshold then write_concept ac i j (if 1 / 2 \<le> con_at h ac ! i ! j then 1 else 0) h
      else h)"

text \<open>
  One entry (lines 117-153). \<open>ax\<close> is the memory of \<open>x\<close> and of \<open>x_new\<close>, \<open>ac\<close>
  that of \<open>c\<close> and of \<open>c_new\<close>: \<open>numpy()\<close> shares the memory of the tensor. The
  state is the store and the number of draws made. \<open>np.random.randint(0, n)\<close>
  raises \<open>ValueError\<close> for \<open>n = 0\<close>.
\<close>

definition noise_entry ::
  "'img numerics \<Rightarrow> real \<Rightarrow> bool \<Rightarrow> bool \<Rightarrow> nat \<Rightarrow> nat \<Rightarrow> nat \<Rightarrow> 'img list \<Rightarrow> 'img list \<Rightarrow> nat
     \<Rightarrow> nat \<Rightarrow> 'img heap \<times> nat \<Rightarrow> error option \<times> 'img heap \<times> nat" where
  "noise_entry env uncertain_width mixing threshold ax ac k possible_options_pos
       possible_options_neg j i s =
     (case s of (h, t) \<Rightarrow>
        if con_at h ac ! i ! j = 1 then
          (let h1 = write_concept ac i j
                      (to_float32 env
                         (uniform_draw env (float_sub env 1 uncertain_width) 1 t)) h
           in if mixing then
                (if possible_options_neg = [] then (Some ValueError, (h1, Suc t))
                 else
                   (let selected_mix = randint_draw env (Suc t) mod length possible_options_neg;
                        h2 = write_image ax i k
                               (mix_with_neg env (con_at h1 ac ! i ! j) (img_at h1 ax ! i ! k)
                                  (possible_options_neg ! selected_mix)) h1
                    in (None, (rethreshold threshold ac i j h2, Suc (Suc t)))))
              else (None, (rethreshold threshold ac i j h1, Suc t)))
        else
          (let h1 = write_concept ac i j
                      (to_float32 env (uniform_draw env 0 uncertain_width t)) h
           in if mixing then
                (if possible_options_pos = [] then (Some ValueError, (h1, Suc t))
                 else
                   (let selected_mix = randint_draw env (Suc t) mod length possible_options_pos;
                        h2 = write_image ax i k
                               (mix_with_pos env (con_at h1 ac ! i ! j) (img_at h1 ax ! i ! k)
                                  (possible_options_pos ! selected_mix)) h1
                    in (None, (rethreshold threshold ac i j h2, Suc (Suc t)))))
              else (None, (rethreshold threshold ac i j h1, Suc t))))"

text \<open>
  One column (lines 101-153). With mixing, the images of operand
  \<open>j // num_operands\<close> of the samples whose entry in column \<open>j\<close> is 1, and of
  those whose entry is 0, are copied out of \<open>x\<close> as it is when the column
  starts; the operand index out of range raises \<open>IndexError\<close>. A batch has at
  least one sample, whose row gives \<open>x.shape[1]\<close>.
\<close>

definition noise_column ::
  "'img numerics \<Rightarrow> real \<Rightarrow> bool \<Rightarrow> bool \<Rightarrow> nat \<Rightarrow> nat \<Rightarrow> nat \<Rightarrow> 'img heap \<times> nat
     \<Rightarrow> error option \<times> 'img heap \<times> nat" where
  "noise_column env uncertain_width mixing threshold ax ac j s =
     (case s of (h, t) \<Rightarrow>
        let x = img_at h ax;
            c = con_at h ac;
            num_operands = (if 2 < length (x ! 0) then length (x ! 0) else 1);
            k = j div num_operands
        in if mixing \<and> length (x ! 0) \<le> k then (Some IndexError, s)
           else
             run_loop
               (noise_entry env uncertain_width mixing threshold ax ac k
                  (if mixing
                   then map (\<lambda>i. x ! i ! k) (filter (\<lambda>i. c ! i ! j = 1) [0..<length c])
                   else [])
                  (if mixing
                   then map (\<lambda>i. x ! i ! k) (filter (\<lambda>i. c ! i ! j = 0) [0..<length c])
                   else [])
                  j)
               [0..<length c] s)"

text \<open>One batch (lines 100-153): nothing is done for a width of 0.\<close>

definition noise_batch ::
  "'img numerics \<Rightarrow> real \<Rightarrow> bool \<Rightarrow> bool \<Rightarrow> nat \<Rightarrow> nat \<Rightarrow> 'img heap \<times> nat
     \<Rightarrow> error option \<times> 'img heap \<times> nat" where
  "noise_batch env uncertain_width mixing threshold ax ac s =
     (if uncertain_width \<noteq> 0
      then run_loop (noise_column env uncertain_width mixing threshold ax ac)
             [0..<length (con_at (fst s) ac ! 0)] s
      else (None, s))"

text \<open>
  The loader makes batch \<open>b\<close>: it reads the samples of the batch from the
  tensors of its dataset, in order, and stacks them into new tensors.
\<close>

definition load_batch ::
  "dataset \<Rightarrow> nat \<Rightarrow> nat \<Rightarrow> 'img heap \<Rightarrow> (nat \<times> nat \<times> nat) \<times> 'img heap" where
  "load_batch d bs b h =
     (let (ax, h1) = alloc_img (take bs (drop (b * bs) (img_at h (ds_x d)))) h;
          (ay, h2) = alloc_lab (take bs (drop (b * bs) (lab_at h1 (ds_y d)))) h1;
          (ac, h3) = alloc_con (take bs (drop (b * bs) (con_at h2 (ds_c d)))) h2
      in ((ax, ay, ac), h3))"

text \<open>
  One iteration of \<open>for x, y, c in ds\<close> (lines 96-156). The unpacking raises
  \<open>ValueError\<close> when the dataset has more than three tensors (the further
  batch tensors are not modelled). \<open>xs\<close>, \<open>ys\<close> and \<open>cs\<close> collect the arrays by
  reference.
\<close>

definition batch_step ::
  "'img numerics \<Rightarrow> real \<Rightarrow> bool \<Rightarrow> bool \<Rightarrow> dataset \<Rightarrow> nat \<Rightarrow> nat
     \<Rightarrow> ('img heap \<times> nat) \<times> nat list \<times> nat list \<times> nat list
     \<Rightarrow> error option \<times> ('img heap \<times> nat) \<times> nat list \<times> nat list \<times> nat list" where
  "batch_step env uncertain_width mixing threshold d bs b st =
     (case st of ((h, t), (xs, ys, cs)) \<Rightarrow>
        (case load_batch d bs b h of ((ax, ay, ac), h3) \<Rightarrow>
           if ds_more d \<noteq> 0 then (Some ValueError, ((h3, t), (xs, ys, cs)))
           else
             (case noise_batch env uncertain_width mixing threshold ax ac (h3, t) of
                (Some e, s') \<Rightarrow> (Some e, (s', (xs, ys @ [ay], cs)))
              | (None, s') \<Rightarrow> (None, (s', (xs @ [ax], ys @ [ay], cs @ [ac]))))))"

definition num_batches :: "nat \<Rightarrow> nat \<Rightarrow> nat" where
  "num_batches n bs = (n + bs - 1) div bs"

text \<open>
  Lines 157-160: the concatenations of the collected arrays, and the tensors
  made of them, are new memory.
\<close>

definition concatenate_batches ::
  "nat list \<Rightarrow> nat list \<Rightarrow> nat list \<Rightarrow> 'img heap \<Rightarrow> dataset \<times> 'img heap" where
  "concatenate_batches xs ys cs h =
     (let (ax, h1) = alloc_img (concat (map (img_at h) xs)) h;
          (ay, h2) = alloc_lab (concat (map (lab_at h1) ys)) h1;
          (ac, h3) = alloc_con (concat (map (con_at h2) cs)) h2
      in (\<lparr>ds_x = ax, ds_y = ay, ds_c = ac, ds_more = 0\<rparr>, h3))"

text \<open>
  One dataset (lines 92-161). \<open>np.concatenate\<close> of no array raises
  \<open>ValueError\<close>. \<open>DataLoader\<close> raises \<open>ValueError\<close> for a negative
  \<open>num_workers\<close>, as the default \<open>-1\<close> is, and for a batch size that is not
  positive.
\<close>

definition inject_loader ::
  "'img numerics \<Rightarrow> real \<Rightarrow> int \<Rightarrow> int \<Rightarrow> bool \<Rightarrow> bool \<Rightarrow> loader \<Rightarrow> 'img heap \<times> nat
     \<Rightarrow> (error + loader) \<times> 'img heap \<times> nat" where
  "inject_loader env uncertain_width batch_size num_workers mixing threshold ds s =
     (case s of (h, t) \<Rightarrow>
        (case run_loop
                (batch_step env uncertain_width mixing threshold (l_dataset ds) (l_batch_size ds))
                [0..<num_batches (length (img_at h (ds_x (l_dataset ds)))) (l_batch_size ds)]
                ((h, t), ([], [], [])) of
           (Some e, (s', collected)) \<Rightarrow> (Inl e, s')
         | (None, ((h', t'), (xs, ys, cs))) \<Rightarrow>
             if xs = [] then (Inl ValueError, (h', t'))
             else
               (case concatenate_batches xs ys cs h' of (d, h3) \<Rightarrow>
                  if num_workers < 0 \<or> batch_size \<le> 0 then (Inl ValueError, (h3, t'))
                  else (Inr \<lparr>l_dataset = d, l_batch_size = nat batch_size\<rparr>, (h3, t')))))"

text \<open>
  \<open>inject_uncertainty\<close>: the datasets in order, the draws counted from the
  seeding at line 88. \<open>concept_groups\<close> is not read after line 90.
\<close>

fun inject_all ::
  "'img numerics \<Rightarrow> real \<Rightarrow> int \<Rightarrow> int \<Rightarrow> bool \<Rightarrow> bool \<Rightarrow> loader list \<Rightarrow> loader list
     \<Rightarrow> 'img heap \<times> nat \<Rightarrow> (error + loader list) \<times> 'img heap \<times> nat" where
  "inject_all env uncertain_width batch_size num_workers mixing threshold [] results s =
     (Inr results, s)"
| "inject_all env uncertain_width batch_size num_workers mixing threshold (ds # rest) results s =
     (case inject_loader env uncertain_width batch_size num_workers mixing threshold ds s of
        (Inl e, s') \<Rightarrow> (Inl e, s')
      | (Inr r, s') \<Rightarrow>
          inject_all env uncertain_width batch_size num_workers mixing threshold rest
            (results @ [r]) s')"

definition inject_uncertainty ::
  "'img numerics \<Rightarrow> loader list \<Rightarrow> real \<Rightarrow> int \<Rightarrow> int \<Rightarrow> bool \<Rightarrow> bool \<Rightarrow> 'img heap
     \<Rightarrow> (error + loader list) \<times> 'img heap" where
  "inject_uncertainty env datasets uncertain_width batch_size num_workers mixing threshold h =
     (case inject_all env uncertain_width batch_size num_workers mixing threshold datasets []
             (h, 0) of
        (r, (h', t)) \<Rightarrow> (r, h'))"

text \<open>
  The frame of a call: \<open>keeps n h h'\<close> says that the tensors at the addresses
  below \<open>n\<close> are in \<open>h'\<close> what they are in \<open>h\<close>, and that no address in use in
  \<open>h\<close> is free in \<open>h'\<close>.
\<close>

definition same_below :: "nat \<Rightarrow> 'img heap \<Rightarrow> 'img heap \<Rightarrow> bool" where
  "same_below n h h' =
     (\<forall>a<n. img_at h' a = img_at h a \<and> lab_at h' a = lab_at h a \<and> con_at h' a = con_at h a)"

definition keeps :: "nat \<Rightarrow> 'img heap \<Rightarrow> 'img heap \<Rightarrow> bool" where
  "keeps n h h' = (same_below n h h' \<and> next_addr h \<le> next_addr h')"

text \<open>
  What the noise does to one concept entry. After re-thresholding the entry
  is 0 or 1. Without it, an entry that was 1 lies between the \<open>float32\<close> value
  of \<open>1.0 - uncertain_width\<close> and 1, and any other entry, so one that was 0,
  between 0 and the \<open>float32\<close> value of \<open>uncertain_width\<close>.
\<close>

definition noised :: "'img numerics \<Rightarrow> real \<Rightarrow> bool \<Rightarrow> real \<Rightarrow> real \<Rightarrow> bool" where
  "noised env uncertain_width threshold orig v =
     (if threshold then v = 0 \<or> v = 1
      else if orig = 1
           then to_float32 env (float_sub env 1 uncertain_width) \<le> v \<and> v \<le> 1
           else 0 \<le> v \<and> v \<le> to_float32 env uncertain_width)"

text \<open>
  \<open>touched D Q c c'\<close>: the matrix \<open>c'\<close> has the shape of \<open>c\<close>, its entries at the
  positions in \<open>D\<close> are related by \<open>Q\<close> to those of \<open>c\<close>, and the others are
  those of \<open>c\<close>.
\<close>

definition touched ::
  "(nat \<times> nat) set \<Rightarrow> (real \<Rightarrow> real \<Rightarrow> bool) \<Rightarrow> real list list \<Rightarrow> real list list \<Rightarrow> bool" where
  "touched D Q c c' =
     (length c' = length c \<and>
      (\<forall>i<length c. length (c' ! i) = length (c ! i) \<and>
         (\<forall>j<length (c ! i). if (i, j) \<in> D then Q (c ! i ! j) (c' ! i ! j)
                               else c' ! i ! j = c ! i ! j)))"

definition rectangular :: "'a list list \<Rightarrow> bool" where
  "rectangular c = (\<forall>row \<in> set c. length row = length (c ! 0))"

section \<open>Facts about the synthesizer\<close>

lemma collect_Inr: "collect rs = Inr vs \<Longrightarrow> rs = map Inr vs"
  by (induction rs arbitrary: vs rule: collect.induct) (auto split: sum.splits)

lemma collect_map_Inr:
  assumes "collect (map f xs) = Inr vs"
  shows "length vs = length xs" and "\<And>i. i < length xs \<Longrightarrow> f (xs ! i) = Inr (vs ! i)"
proof -
  have eq: "map f xs = map Inr vs" using assms by (rule collect_Inr)
  then show len: "length vs = length xs" by (metis length_map)
  fix i assume "i < length xs"
  with eq len show "f (xs ! i) = Inr (vs ! i)" by (metis nth_map)
qed

lemma concept_vals_length:
  "concept_vals ec ds remap lab = Inr cv \<Longrightarrow> length cv = operand_width ec ds"
  by (auto simp: concept_vals_def operand_width_def one_hot_def split: if_splits option.splits sum.splits)

lemma draw_operand_Inr:
  assumes "draw_operand ec (ds, remap, ts, tls) r = Inr (img, cv, lab)"
  shows "length cv = operand_width ec ds" and "lab = tls ! (r mod length ts)" and "ts \<noteq> []"
  using assms
  by (auto simp: draw_operand_def np_random_choice_def concept_vals_length split: if_splits sum.splits)

lemma operand_pool_Inr:
  "operand_pool X y allowed = Inr (ts, tls) \<Longrightarrow>
     tls = map (\<lambda>i. y ! i) (filter_idxs y allowed) \<and> length ts = length tls"
  by (auto simp: operand_pool_def rows_at_def split: sum.splits if_splits)


lemma make_sample_Inr:
  assumes ms: "make_sample ec el thr opnds draws = Inr (imgs, lab, c)"
    and len: "length draws = length opnds"
  shows "length c = sum_list (map (\<lambda>opnd. operand_width ec (fst opnd)) opnds)"
    and "lab = task_label el thr
           (sum_list (map (\<lambda>i. (snd (snd (snd (opnds ! i)))) ! ((draws ! i) mod length (fst (snd (snd (opnds ! i))))))
              [0..<length opnds]))"
proof -
  obtain parts where parts: "collect (map2 (draw_operand ec) opnds draws) = Inr parts"
    and c: "c = concat (map (\<lambda>p. fst (snd p)) parts)"
    and lab: "lab = task_label el thr (sum_list (map (\<lambda>p. snd (snd p)) parts))"
    using ms by (auto simp: make_sample_def split: sum.splits if_splits)
  have plen: "length parts = length opnds"
    using collect_map_Inr(1)[OF parts] len by simp
  have each: "draw_operand ec (opnds ! i) (draws ! i) = Inr (parts ! i)" if "i < length opnds" for i
    using collect_map_Inr(2)[OF parts, of i] that len by simp
  have w: "length (fst (snd (parts ! i))) = operand_width ec (fst (opnds ! i))"
    and l: "snd (snd (parts ! i)) =
              (snd (snd (snd (opnds ! i)))) ! ((draws ! i) mod length (fst (snd (snd (opnds ! i)))))"
    if "i < length opnds" for i
  proof -
    obtain ds remap ts tls where o: "opnds ! i = (ds, remap, ts, tls)" by (cases "opnds ! i") auto
    obtain img cv lb where p: "parts ! i = (img, cv, lb)" by (cases "parts ! i") auto
    from each[OF that] o p have d: "draw_operand ec (ds, remap, ts, tls) (draws ! i) = Inr (img, cv, lb)"
      by simp
    show "length (fst (snd (parts ! i))) = operand_width ec (fst (opnds ! i))"
      using draw_operand_Inr(1)[OF d] o p by simp
    show "snd (snd (parts ! i)) =
              (snd (snd (snd (opnds ! i)))) ! ((draws ! i) mod length (fst (snd (snd (opnds ! i)))))"
      using draw_operand_Inr(2)[OF d] o p by simp
  qed
  have "map (\<lambda>p. length (fst (snd p))) parts = map (\<lambda>opnd. operand_width ec (fst opnd)) opnds"
    using plen w by (intro nth_equalityI) auto
  then show "length c = sum_list (map (\<lambda>opnd. operand_width ec (fst opnd)) opnds)"
    unfolding c by (simp add: length_concat comp_def)
  have "map (\<lambda>p. snd (snd p)) parts =
          map (\<lambda>i. (snd (snd (snd (opnds ! i)))) ! ((draws ! i) mod length (fst (snd (snd (opnds ! i))))))
            [0..<length opnds]"
    using plen l by (intro nth_equalityI) auto
  then show "lab = task_label el thr
           (sum_list (map (\<lambda>i. (snd (snd (snd (opnds ! i)))) ! ((draws ! i) mod length (fst (snd (snd (opnds ! i))))))
              [0..<length opnds]))"
    unfolding lab by simp
qed

lemma synthesize_Inr:
  assumes syn: "synthesize X y a rng = Inr (imgs, labels, concepts)"
    and sd: "operand_lists (selected_digits a) (num_operands a) = Inr sd"
  shows "length labels = nat (dataset_size a)"
    and "length concepts = nat (dataset_size a)"
    and "\<And>s. s < nat (dataset_size a) \<Longrightarrow>
           length (concepts ! s) = sum_list (map (operand_width (even_concepts a)) sd)"
    and "\<And>s. s < nat (dataset_size a) \<Longrightarrow>
           labels ! s = task_label (even_labels a) (threshold_labels a)
                          (sum_list (chosen_labels y sd rng s))"
proof -
  obtain pools samples where pools: "collect (map (operand_pool X y) sd) = Inr pools"
    and samples: "collect
                       (map (\<lambda>s. make_sample (even_concepts a) (even_labels a) (threshold_labels a)
                                    (zip sd (zip (map operand_remap sd) pools))
                                    (map (rng s) [0..<length sd]))
                          [0..<nat (dataset_size a)]) = Inr samples"
    and labels: "labels = map (\<lambda>t. fst (snd t)) samples"
    and concepts: "concepts = map (\<lambda>t. snd (snd t)) samples"
    using syn sd by (auto simp: synthesize_def split: sum.splits if_splits)
  let ?opnds = "zip sd (zip (map operand_remap sd) pools)"
  have poollen: "length pools = length sd"
    using collect_map_Inr(1)[OF pools] .
  have pool: "operand_pool X y (sd ! i) = Inr (pools ! i)" if "i < length sd" for i
    using collect_map_Inr(2)[OF pools that] .
  have olen: "length ?opnds = length sd" using poollen by simp
  have slen: "length samples = nat (dataset_size a)"
    using collect_map_Inr(1)[OF samples] by simp
  show "length labels = nat (dataset_size a)" "length concepts = nat (dataset_size a)"
    using slen labels concepts by simp_all
  fix s assume s: "s < nat (dataset_size a)"
  have "make_sample (even_concepts a) (even_labels a) (threshold_labels a) ?opnds
           (map (rng s) [0..<length sd]) = Inr (samples ! s)"
    using collect_map_Inr(2)[OF samples, of s] s by simp
  then have ms: "make_sample (even_concepts a) (even_labels a) (threshold_labels a) ?opnds
           (map (rng s) [0..<length sd]) = Inr (fst (samples ! s), labels ! s, concepts ! s)"
    using s slen labels concepts by simp
  have dlen: "length (map (rng s) [0..<length sd]) = length ?opnds" using olen by simp
  have "map (\<lambda>opnd. operand_width (even_concepts a) (fst opnd)) ?opnds
          = map (operand_width (even_concepts a)) sd"
    using poollen by (intro nth_equalityI) auto
  with make_sample_Inr(1)[OF ms dlen]
  show "length (concepts ! s) = sum_list (map (operand_width (even_concepts a)) sd)" by simp
  have "map (\<lambda>i. (snd (snd (snd (?opnds ! i)))) !
                  ((map (rng s) [0..<length sd] ! i) mod length (fst (snd (snd (?opnds ! i))))))
            [0..<length ?opnds] = chosen_labels y sd rng s"
    unfolding chosen_labels_def olen
  proof (rule map_cong[OF refl])
    fix i assume "i \<in> set [0..<length sd]"
    then have i: "i < length sd" by simp
    obtain ts tls where p: "pools ! i = (ts, tls)" by (cases "pools ! i") auto
    from pool[OF i] p have "operand_pool X y (sd ! i) = Inr (ts, tls)" by simp
    from operand_pool_Inr[OF this] have tls: "tls = map (\<lambda>i. y ! i) (filter_idxs y (sd ! i))"
      and tlen: "length ts = length tls" by auto
    have o: "?opnds ! i = (sd ! i, operand_remap (sd ! i), ts, tls)"
      using i poollen p by simp
    show "snd (snd (snd (?opnds ! i))) ! (map (rng s) [0..<length sd] ! i mod length (fst (snd (snd (?opnds ! i)))))
        = (let total_labels = map ((!) y) (filter_idxs y (sd ! i)) in total_labels ! (rng s i mod length total_labels))"
      using i tls tlen unfolding o by (simp add: Let_def)
  qed
  with make_sample_Inr(2)[OF ms dlen]
  show "labels ! s = task_label (even_labels a) (threshold_labels a)
                          (sum_list (chosen_labels y sd rng s))" by simp
qed

text \<open>
  Claim C1, as amended. For every sample of a bundle returned by
  \<open>produce_addition_set\<close>, with \<open>total\<close> the sum of the raw digit labels of the
  operands chosen for that sample: the task label is \<open>total\<close> when
  \<open>even_labels\<close> is false and \<open>threshold_labels\<close> is \<open>None\<close>; it is the parity
  indicator (1 iff \<open>total\<close> is even) when \<open>even_labels\<close> is true, whatever
  \<open>threshold_labels\<close> is; and it is the indicator of
  \<open>total \<ge> threshold_labels\<close> when \<open>threshold_labels\<close> is set and
  \<open>even_labels\<close> is false. The bundle has \<open>dataset_size\<close> labels.
\<close>

theorem task_label_consistent:
  assumes "produce_addition_set X y a rng = Inr (imgs, labels, concepts)"
    and "operand_lists (selected_digits a) (num_operands a) = Inr sd"
  shows "length labels = nat (dataset_size a) \<and>
         (\<forall>s < length labels.
            (\<not> even_labels a \<and> threshold_labels a = None \<longrightarrow>
               labels ! s = sum_list (chosen_labels y sd rng s)) \<and>
            (even_labels a \<longrightarrow>
               labels ! s = (if sum_list (chosen_labels y sd rng s) mod 2 = 0 then 1 else 0)) \<and>
            (\<forall>t. \<not> even_labels a \<and> threshold_labels a = Some t \<longrightarrow>
               labels ! s = (if t \<le> real_of_int (sum_list (chosen_labels y sd rng s)) then 1 else 0)))"
proof -
  obtain cs0 where syn: "synthesize X y a rng = Inr (imgs, labels, cs0)"
    using assms(1) by (auto simp: produce_addition_set_def split: sum.splits option.splits)
  have len: "length labels = nat (dataset_size a)"
    using synthesize_Inr(1)[OF syn assms(2)] .
  have "labels ! s = task_label (even_labels a) (threshold_labels a)
                       (sum_list (chosen_labels y sd rng s))" if "s < length labels" for s
    using synthesize_Inr(4)[OF syn assms(2), of s] that len by simp
  then show ?thesis
    using len by (auto simp: task_label_def py_int_def)
qed

theorem task_label_consistent_witness:
  "produce_addition_set [10::nat, 11, 12] [0, 1, 1]
      \<lparr>dataset_size = 2, num_operands = 2, selected_digits = Flat [0, 1],
       sample_concepts = None, even_concepts = False, even_labels = False,
       threshold_labels = Some 2, concept_transform = None\<rparr> (\<lambda>s p. s + p)
     = Inr ([[10, 11], [11, 12]], [0, 1], [[0, 1], [1, 1]]) \<and>
   sum_list (chosen_labels [0, 1, 1] [[0, 1], [0, 1]] (\<lambda>s p. s + p) 1) = 2 \<and>
   [0, 1 :: int] ! 1 = (if (2::real) \<le> real_of_int 2 then 1 else 0)"
proof -
  let ?a = "\<lparr>dataset_size = 2, num_operands = 2, selected_digits = Flat [0, 1],
       sample_concepts = None, even_concepts = False, even_labels = False,
       threshold_labels = Some 2, concept_transform = None\<rparr>"
  have r: "produce_addition_set [10::nat, 11, 12] [0, 1, 1] ?a (\<lambda>s p. s + p)
             = Inr ([[10, 11], [11, 12]], [0, 1], [[0, 1], [1, 1]])"
    by code_simp
  have sd: "operand_lists (selected_digits ?a) (num_operands ?a) = Inr [[0, 1], [0, 1]]"
    by code_simp
  have t: "sum_list (chosen_labels [0, 1, 1] [[0, 1], [0, 1]] (\<lambda>s p. s + p) 1) = 2"
    by code_simp
  from task_label_consistent[OF r sd] t r show ?thesis by simp
qed

text \<open>
  The claim as first stated fails where both label options are given: with
  \<open>even_labels\<close> true and \<open>threshold_labels = 1\<close>, a sample whose digits sum to 0
  gets the parity label 1, although the sum is below the threshold.
\<close>

theorem task_label_threshold_counterexample:
  "produce_addition_set [10::nat] [0]
      \<lparr>dataset_size = 1, num_operands = 1, selected_digits = Flat [0],
       sample_concepts = None, even_concepts = False, even_labels = True,
       threshold_labels = Some 1, concept_transform = None\<rparr> (\<lambda>s p. 0)
     = Inr ([[10]], [1], [[1]]) \<and>
   sum_list (chosen_labels [0] [[0]] (\<lambda>s p. 0) 0) = 0 \<and>
   py_int ((1::real) \<le> real_of_int (sum_list (chosen_labels [0] [[0]] (\<lambda>s p. 0) 0))) = 0"
  by code_simp

text \<open>
  Claim C2, as amended. In every bundle synthesized by \<open>produce_addition_set\<close>,
  before the concept subselection and the concept transform, each concept
  vector has as many entries as the widths of the operands add up to: an
  operand whose list of allowed digits has at most 2 entries is 1 wide, any
  other is as wide as that list is long (a digit listed twice counts twice),
  and every operand is 1 wide in even-concepts mode.
\<close>

theorem concept_width:
  assumes "synthesize X y a rng = Inr (imgs, labels, concepts)"
    and "operand_lists (selected_digits a) (num_operands a) = Inr sd"
  shows "length concepts = nat (dataset_size a) \<and>
         (\<forall>c \<in> set concepts. length c = sum_list (map (operand_width (even_concepts a)) sd))"
proof -
  have len: "length concepts = nat (dataset_size a)"
    using synthesize_Inr(2)[OF assms] .
  have "length (concepts ! s) = sum_list (map (operand_width (even_concepts a)) sd)"
    if "s < length concepts" for s
    using synthesize_Inr(3)[OF assms, of s] that len by simp
  then show ?thesis
    using len by (auto simp: in_set_conv_nth)
qed

theorem concept_width_witness:
  "synthesize [10::nat, 11, 12, 13] [0, 1, 1, 2]
      \<lparr>dataset_size = 2, num_operands = 2, selected_digits = Nested [[0, 1, 2], [1, 2]],
       sample_concepts = None, even_concepts = False, even_labels = False,
       threshold_labels = None, concept_transform = None\<rparr> (\<lambda>s p. s + 2 * p)
     = Inr ([[10, 13], [11, 11]], [2, 2], [[1, 0, 0, 1], [0, 1, 0, 0]]) \<and>
   map length [[1, 0, 0, 1], [0, 1, 0, 0 :: int]] = [3 + 1, 3 + 1]"
proof -
  let ?a = "\<lparr>dataset_size = 2, num_operands = 2, selected_digits = Nested [[0, 1, 2], [1, 2]],
       sample_concepts = None, even_concepts = False, even_labels = False,
       threshold_labels = None, concept_transform = None\<rparr>"
  have r: "synthesize [10::nat, 11, 12, 13] [0, 1, 1, 2] ?a (\<lambda>s p. s + 2 * p)
             = Inr ([[10, 13], [11, 11]], [2, 2], [[1, 0, 0, 1], [0, 1, 0, 0]])"
    by code_simp
  have sd: "operand_lists (selected_digits ?a) (num_operands ?a) = Inr [[0, 1, 2], [1, 2]]"
    by code_simp
  from concept_width[OF r sd] r show ?thesis by (simp add: operand_width_def)
qed

text \<open>
  The claim as first stated counts the members of the set of allowed digits.
  For one operand with \<open>selected_digits = [0, 0, 1]\<close> that set has 2 members,
  which would make the operand 1 wide; the list has 3 entries, and the concept
  vectors are one-hot vectors of 3 entries.
\<close>

theorem concept_width_repeated_digit_counterexample:
  "synthesize [10::nat, 11] [0, 1]
      \<lparr>dataset_size = 2, num_operands = 1, selected_digits = Flat [0, 0, 1],
       sample_concepts = None, even_concepts = False, even_labels = False,
       threshold_labels = None, concept_transform = None\<rparr> (\<lambda>s p. s)
     = Inr ([[10], [11]], [0, 1], [[0, 1, 0], [0, 0, 1]]) \<and>
   map length [[0, 1, 0], [0, 0, 1 :: int]] = [3, 3] \<and>
   sum_list (map (operand_width_of_set False) [[0, 0, 1]]) = 1"
  by code_simp

section \<open>Facts about the label propagator\<close>

lemma class_count_fold: "fold (\<lambda>y cc. cc(y := cc y + 1)) ys f k = f k + count_list ys k"
  by (induction ys arbitrary: f) auto

lemma class_count_eq: "class_count ys k = count_list ys k"
  unfolding class_count_def by (subst class_count_fold) simp

lemma nat_less_real_ceiling: "(real c < x) = (c < nat \<lceil>x\<rceil>)"
  by linarith

lemma length_mark_labeled: "length (mark_labeled fmul r cc lc ys) = length ys"
  by (induction ys arbitrary: lc) auto

lemma mark_labeled_nth:
  "i < length ys \<Longrightarrow>
     mark_labeled fmul r cc lc ys ! i
       = (lc (ys ! i) + count_list (take i ys) (ys ! i) < nat \<lceil>fmul r (real (cc (ys ! i)))\<rceil>)"
proof (induction ys arbitrary: lc i)
  case Nil
  then show ?case by simp
next
  case (Cons y ys)
  show ?case
  proof (cases i)
    case 0
    then show ?thesis by (simp add: nat_less_real_ceiling)
  next
    case (Suc j)
    with Cons.prems have j: "j < length ys" by simp
    show ?thesis
      using Cons.IH[OF j] Suc by (auto simp: nat_less_real_ceiling)
  qed
qed

lemma count_prefix_filter:
  "length (filter (\<lambda>i. ys ! i = k \<and> count_list (take i ys) k < m) [0..<length ys])
     = min (count_list ys k) m"
proof (induction ys rule: rev_induct)
  case Nil
  then show ?case by simp
next
  case (snoc y ys)
  have "filter (\<lambda>i. (ys @ [y]) ! i = k \<and> count_list (take i (ys @ [y])) k < m) [0..<length ys]
          = filter (\<lambda>i. ys ! i = k \<and> count_list (take i ys) k < m) [0..<length ys]"
    by (rule filter_cong) (auto simp: nth_append)
  with snoc show ?case by (auto simp: nth_append)
qed

text \<open>
  Claim C4, as amended. In the stratification of a training split by
  \<open>get_ss_components\<close> with requested labeled ratio \<open>r\<close>, there is one flag per
  sample; for every class \<open>k\<close> with \<open>n\<^sub>k\<close> samples the number of samples of class
  \<open>k\<close> flagged labeled is \<open>min(n\<^sub>k, ceil(v))\<close>, where \<open>v\<close> is the floating-point
  product \<open>r * n\<^sub>k\<close> that line 42 computes; and a sample is flagged labeled
  exactly when fewer than that many samples of its class precede it in dataset
  order, so the labeled samples of a class are its earliest ones. This holds
  whatever the rounding of the product is.
\<close>

theorem stratified_labeled_count:
  "length (l_choice_of fmul True r ys) = length ys \<and>
   (\<forall>k. length (filter (\<lambda>i. ys ! i = k \<and> l_choice_of fmul True r ys ! i) [0..<length ys])
          = min (count_list ys k) (nat \<lceil>fmul r (real (count_list ys k))\<rceil>)) \<and>
   (\<forall>i < length ys.
      l_choice_of fmul True r ys ! i
        = (count_list (take i ys) (ys ! i)
             < min (count_list ys (ys ! i)) (nat \<lceil>fmul r (real (count_list ys (ys ! i)))\<rceil>)))"
proof -
  let ?m = "\<lambda>k. nat \<lceil>fmul r (real (count_list ys k))\<rceil>"
  have flag: "l_choice_of fmul True r ys ! i = (count_list (take i ys) (ys ! i) < ?m (ys ! i))"
    if "i < length ys" for i
    using mark_labeled_nth[OF that, of fmul r "class_count ys" "\<lambda>_. 0"]
    by (simp add: l_choice_of_def class_count_eq)
  have earlier: "count_list (take i ys) (ys ! i) < count_list ys (ys ! i)" if "i < length ys" for i
  proof -
    have "ys = take i ys @ ys ! i # drop (Suc i) ys"
      using that by (simp add: id_take_nth_drop)
    then have "count_list ys (ys ! i)
                 = count_list (take i ys) (ys ! i) + count_list (ys ! i # drop (Suc i) ys) (ys ! i)"
      by (metis count_list_append)
    then show ?thesis by simp
  qed
  have count: "length (filter (\<lambda>i. ys ! i = k \<and> l_choice_of fmul True r ys ! i) [0..<length ys])
                 = min (count_list ys k) (?m k)" for k
  proof -
    have "filter (\<lambda>i. ys ! i = k \<and> l_choice_of fmul True r ys ! i) [0..<length ys]
            = filter (\<lambda>i. ys ! i = k \<and> count_list (take i ys) k < ?m k) [0..<length ys]"
      by (rule filter_cong) (auto simp: flag)
    then show ?thesis by (simp add: count_prefix_filter)
  qed
  have len: "length (l_choice_of fmul True r ys) = length ys"
    by (simp add: l_choice_of_def length_mark_labeled)
  have early: "l_choice_of fmul True r ys ! i
                 = (count_list (take i ys) (ys ! i) < min (count_list ys (ys ! i)) (?m (ys ! i)))"
    if "i < length ys" for i
    using flag[OF that] earlier[OF that] by simp
  show ?thesis
    using len count early by blast
qed

theorem stratified_labeled_count_witness:
  "l_choice_of (\<lambda>a b. a * b) True (1 / 2) [0, 0, 0, 1 :: nat] ! 2
     = (count_list (take 2 [0, 0, 0, 1 :: nat]) 0 < min 3 (nat \<lceil>(1 / 2 :: real) * 3\<rceil>)) \<and>
   count_list (take 2 [0, 0, 0, 1 :: nat]) 0 = 2 \<and>
   nat \<lceil>(1 / 2 :: real) * 3\<rceil> = 2 \<and>
   \<not> l_choice_of (\<lambda>a b. a * b) True (1 / 2) [0, 0, 0, 1 :: nat] ! 2"
proof -
  have i: "2 < length [0, 0, 0, 1 :: nat]" by simp
  have c: "count_list [0, 0, 0, 1 :: nat] 0 = 3" by simp
  have t: "count_list (take 2 [0, 0, 0, 1 :: nat]) 0 = 2" by (simp add: numeral_2_eq_2)
  have n: "[0, 0, 0, 1 :: nat] ! 2 = 0" by (simp add: numeral_2_eq_2)
  have m: "nat \<lceil>(1 / 2 :: real) * 3\<rceil> = 2" by linarith
  from stratified_labeled_count[of "\<lambda>a b. a * b" "1 / 2" "[0, 0, 0, 1 :: nat]"] i
  have "l_choice_of (\<lambda>a b. a * b) True (1 / 2) [0, 0, 0, 1 :: nat] ! 2
     = (count_list (take 2 [0, 0, 0, 1 :: nat]) ([0, 0, 0, 1 :: nat] ! 2)
         < min (count_list [0, 0, 0, 1 :: nat] ([0, 0, 0, 1 :: nat] ! 2))
             (nat \<lceil>(1 / 2 :: real) * real (count_list [0, 0, 0, 1 :: nat] ([0, 0, 0, 1 :: nat] ! 2))\<rceil>))"
    by blast
  then have "l_choice_of (\<lambda>a b. a * b) True (1 / 2) [0, 0, 0, 1 :: nat] ! 2
     = (count_list (take 2 [0, 0, 0, 1 :: nat]) 0 < min 3 (nat \<lceil>(1 / 2 :: real) * 3\<rceil>))"
    unfolding n c by simp
  with t m show ?thesis by simp
qed

text \<open>
  The claim as first stated has \<open>floor\<close> for \<open>ceil\<close>: with ratio 1/2, a class of
  three samples gets two labeled samples, and \<open>min(3, floor(1.5))\<close> is 1. The
  double product \<open>0.5 * 3\<close> is \<open>1.5\<close>, with no rounding, and so are the products
  of the other closed examples below.
\<close>

theorem stratified_floor_counterexample:
  "l_choice_of (\<lambda>a b. a * b) True (1 / 2) [0, 0, 0 :: nat] = [True, True, False] \<and>
   length (filter (\<lambda>i. [0, 0, 0 :: nat] ! i = 0 \<and> [True, True, False] ! i) [0..<3]) = 2 \<and>
   min (count_list [0, 0, 0 :: nat] 0) (nat \<lfloor>(1 / 2 :: real) * real (count_list [0, 0, 0 :: nat] 0)\<rfloor>) = 1"
proof -
  have a: "l_choice_of (\<lambda>a b. a * b) True (1 / 2) [0, 0, 0 :: nat] = [True, True, False]"
    by (simp add: l_choice_of_def class_count_def)
  have b: "length (filter (\<lambda>i. [0, 0, 0 :: nat] ! i = 0 \<and> [True, True, False] ! i) [0..<3]) = 2"
    by code_simp
  have c: "nat \<lfloor>(1 / 2 :: real) * 3\<rfloor> = 1" by linarith
  show ?thesis using a b c by simp
qed

text \<open>
  Claim C3 is not what the code does. On four samples of classes 0, 0, 1, 1
  with ratio 1/2 the stratification labels samples 0 and 2. The claim asks for
  sample 0 its own flag (\<open>True\<close>) and the concepts of its own neighbours,
  mapped back from the labeled subset to the whole array (samples 0 and 2,
  concepts 10 and 12). The code returns for every sample the flag of the last
  sample (\<open>False\<close>) and the neighbours of the last sample, read from \<open>cs\<close> at
  the unmapped positions 1 and 0 (concepts 11 and 10).
\<close>

theorem get_ss_components_stale_index:
  "get_ss_components (\<lambda>a b. a * b) (\<lambda>fitted k q. if q < 2 then [(0, 0), (1, 1)] else [(0, 1), (1, 0)])
      [0 :: nat, 1, 2, 3] [0 :: nat, 0, 1, 1] [[10 :: nat], [11], [12], [13]] (1 / 2) True
     = Inr ([0, 1, 2, 3], [0, 0, 1, 1], [[10], [11], [12], [13]],
            [False, False, False, False],
            [[[11], [10]], [[11], [10]], [[11], [10]], [[11], [10]]],
            [[1000001 / 1000002, 1 / 1000002], [1000001 / 1000002, 1 / 1000002],
             [1000001 / 1000002, 1 / 1000002], [1000001 / 1000002, 1 / 1000002]]) \<and>
   l_choice_of (\<lambda>a b. a * b) True (1 / 2) [0 :: nat, 0, 1, 1] = [True, False, True, False] \<and>
   mapped_back_concepts [[10 :: nat], [11], [12], [13]] [True, False, True, False] [0, 1]
     = [[10], [12]]"
  by code_simp

section \<open>Facts about the orchestrator\<close>

lemma produce_check_fails:
  "operand_lists (selected_digits a) (num_operands a) = Inl e \<Longrightarrow> produce_addition_set X y a rng = Inl e"
  by (simp add: produce_addition_set_def synthesize_def)

lemma before_return_check_fails:
  "operand_lists (config_get (cfg_selected_digits cfg) (Flat [0, 1])) (config_get (cfg_num_operands cfg) 32) = Inl e
     \<Longrightarrow> before_return fmul L I P cfg rd rerun fs = (Inl e, fs)"
  by (simp add: before_return_def Let_def)

lemma generate_check_fails:
  "operand_lists (config_get (cfg_selected_digits cfg) (Flat [0, 1])) (config_get (cfg_num_operands cfg) 32) = Inl e
     \<Longrightarrow> generate_data fmul L I P cfg rd rerun fs = (Inl e, fs)"
  by (simp add: generate_data_def before_return_check_fails)


text \<open>
  Claim C9, as amended. \<open>produce_addition_set\<close> and \<open>generate_data\<close> raise an
  error whenever \<open>selected_digits\<close> is a list of lists whose length differs from
  \<open>num_operands\<close> (\<open>ValueError\<close>, or \<open>IndexError\<close> when the list is empty), and
  the check passes for a non-empty flat list, which is replicated across all
  operand positions, and for a non-empty list of lists of length exactly
  \<open>num_operands\<close>.
\<close>

theorem operand_spec_check:
  "(int (length dss) \<noteq> n \<longrightarrow>
      operand_lists (Nested dss) n = Inl (if dss = [] then IndexError else ValueError) \<and>
      produce_addition_set X y (a\<lparr>selected_digits := Nested dss, num_operands := n\<rparr>) rng
        = Inl (if dss = [] then IndexError else ValueError) \<and>
      generate_data fmul L I P (cfg\<lparr>cfg_selected_digits := Some (Nested dss), cfg_num_operands := Some n\<rparr>)
          rd rerun fs
        = (Inl (if dss = [] then IndexError else ValueError), fs)) \<and>
   (ds \<noteq> [] \<longrightarrow> operand_lists (Flat ds) n = Inr (replicate (nat n) ds)) \<and>
   (dss \<noteq> [] \<and> int (length dss) = n \<longrightarrow> operand_lists (Nested dss) n = Inr dss)"
proof -
  have chk: "operand_lists (Nested dss) n = Inl (if dss = [] then IndexError else ValueError)"
    if "int (length dss) \<noteq> n"
    using that by (simp add: operand_lists_def)
  have pas: "produce_addition_set X y (a\<lparr>selected_digits := Nested dss, num_operands := n\<rparr>) rng
        = Inl (if dss = [] then IndexError else ValueError)" if "int (length dss) \<noteq> n"
    by (rule produce_check_fails) (simp add: chk[OF that])
  have gen: "generate_data fmul L I P (cfg\<lparr>cfg_selected_digits := Some (Nested dss), cfg_num_operands := Some n\<rparr>)
          rd rerun fs = (Inl (if dss = [] then IndexError else ValueError), fs)"
    if "int (length dss) \<noteq> n"
    by (rule generate_check_fails) (simp add: chk[OF that] config_get_def)
  show ?thesis
    using chk pas gen by (simp add: operand_lists_def)
qed


theorem operand_spec_check_witness:
  "int (length [[0, 1 :: int]]) \<noteq> 2 \<and>
   operand_lists (Nested [[0, 1]]) 2 = Inl ValueError \<and>
   produce_addition_set [10 :: nat] [0]
      \<lparr>dataset_size = 1, num_operands = 2, selected_digits = Nested [[0, 1]],
       sample_concepts = None, even_concepts = False, even_labels = False,
       threshold_labels = None, concept_transform = None\<rparr> (\<lambda>s p. 0) = Inl ValueError \<and>
   operand_lists (Flat [0, 1]) 2 = Inr [[0, 1], [0, 1]]"
proof -
  have h: "int (length [[0, 1 :: int]]) \<noteq> 2" by simp
  have r: "replicate (nat 2) [0, 1 :: int] = [[0, 1], [0, 1]]" by (simp add: numeral_2_eq_2)
  from operand_spec_check[where dss = "[[0, 1]]" and n = 2 and ds = "[0, 1]" and X = "[10 :: nat]"
      and y = "[0]" and rng = "\<lambda>s p. 0" and fmul = "\<lambda>a b. a * b" and L = "\<lambda>sd ct. Inr ()" and I = "\<lambda>dl m. Inr ()"
      and P = "\<lambda>m. [0..<m]" and rd = "''data''" and rerun = False and fs = Map.empty
      and cfg = "\<lparr>cfg_selected_digits = None, cfg_num_operands = None, cfg_even_concepts = None,
           cfg_even_labels = None, cfg_threshold_labels = None, cfg_sampling_percent = None,
           cfg_sampling_groups = None, cfg_weight_loss = None\<rparr>"
      and a = "\<lparr>dataset_size = 1, num_operands = 2, selected_digits = Nested [[0, 1]],
       sample_concepts = None, even_concepts = False, even_labels = False,
       threshold_labels = None, concept_transform = None\<rparr>"] h r
  show ?thesis by simp
qed

text \<open>
  The claim as first stated fails for the empty list, which is both a flat list
  and a list of lists: reading its first element raises \<open>IndexError\<close>, also
  when \<open>num_operands\<close> is 0, the length of the list.
\<close>

theorem operand_spec_empty_counterexample:
  "operand_lists (Flat []) 0 = Inl IndexError \<and>
   operand_lists (Nested []) 0 = Inl IndexError \<and>
   produce_addition_set [10 :: nat] [0]
      \<lparr>dataset_size = 1, num_operands = 0, selected_digits = Flat [],
       sample_concepts = None, even_concepts = False, even_labels = False,
       threshold_labels = None, concept_transform = None\<rparr> (\<lambda>s p. 0) = Inl IndexError"
  by (simp add: operand_lists_def produce_addition_set_def synthesize_def)

lemma before_return_n_tasks:
  assumes "cfg_even_concepts cfg = Some True"
    and "config_get (cfg_even_labels cfg) False = False"
    and "cfg_threshold_labels cfg = None"
    and "before_return fmul L I P cfg rd rerun fs = (Inr (dl, imb, nc, nt, cgm), fs')"
  shows "nt = None"
  using assms
  by (auto simp: before_return_def Let_def config_get_def initial_groups_def
           split: sum.splits prod.splits if_splits option.splits)

text \<open>
  Claim C10, as amended. For every config with \<open>even_concepts\<close> true,
  \<open>even_labels\<close> false and \<open>threshold_labels\<close> unset, \<open>generate_data\<close> never
  returns: \<open>n_tasks\<close> is unbound when the \<open>return\<close> statement is reached, so
  whenever the steps before it complete the call fails there with the
  unbound-name error, and otherwise an earlier step has raised.
\<close>

theorem even_concepts_unbound_n_tasks:
  assumes "cfg_even_concepts cfg = Some True"
    and "\<not> config_get (cfg_even_labels cfg) False"
    and "cfg_threshold_labels cfg = None"
  shows "(\<forall>r fs'. generate_data fmul L I P cfg rd rerun fs \<noteq> (Inr r, fs')) \<and>
         (\<forall>v fs'. before_return fmul L I P cfg rd rerun fs = (Inr v, fs') \<longrightarrow>
                   generate_data fmul L I P cfg rd rerun fs = (Inl UnboundLocalError, fs'))"
proof -
  have unbound: "generate_data fmul L I P cfg rd rerun fs = (Inl UnboundLocalError, fs')"
    if "before_return fmul L I P cfg rd rerun fs = (Inr v, fs')" for v fs'
  proof -
    obtain dl imb nc nt cgm where v: "v = (dl, imb, nc, nt, cgm)" by (cases v) auto
    have "nt = None"
      using before_return_n_tasks[OF assms(1) _ assms(3) that[unfolded v]] assms(2) by simp
    then show ?thesis using that v by (simp add: generate_data_def)
  qed
  have "generate_data fmul L I P cfg rd rerun fs \<noteq> (Inr r, fs')" for r fs'
  proof (cases "before_return fmul L I P cfg rd rerun fs")
    case (Pair res f)
    show ?thesis
    proof (cases res)
      case (Inl e)
      with Pair show ?thesis by (simp add: generate_data_def)
    next
      case (Inr v)
      with Pair unbound[of v f] show ?thesis by simp
    qed
  qed
  with unbound show ?thesis by blast
qed

theorem even_concepts_unbound_n_tasks_witness:
  "fst (before_return (\<lambda>a b. a * b) (\<lambda>sd ct. Inr ()) (\<lambda>dl n. Inr ()) (\<lambda>m. [0..<m])
          \<lparr>cfg_selected_digits = None, cfg_num_operands = Some 2, cfg_even_concepts = Some True,
           cfg_even_labels = None, cfg_threshold_labels = None, cfg_sampling_percent = None,
           cfg_sampling_groups = None, cfg_weight_loss = None\<rparr> ''data'' False Map.empty)
     = Inr ((), None, 2, None, [(0, [0]), (1, [1])]) \<and>
   fst (generate_data (\<lambda>a b. a * b) (\<lambda>sd ct. Inr ()) (\<lambda>dl n. Inr ()) (\<lambda>m. [0..<m])
          \<lparr>cfg_selected_digits = None, cfg_num_operands = Some 2, cfg_even_concepts = Some True,
           cfg_even_labels = None, cfg_threshold_labels = None, cfg_sampling_percent = None,
           cfg_sampling_groups = None, cfg_weight_loss = None\<rparr> ''data'' False Map.empty)
     = Inl UnboundLocalError"
proof -
  let ?cfg = "\<lparr>cfg_selected_digits = None, cfg_num_operands = Some 2, cfg_even_concepts = Some True,
           cfg_even_labels = None, cfg_threshold_labels = None, cfg_sampling_percent = None,
           cfg_sampling_groups = None, cfg_weight_loss = None\<rparr>"
  let ?b = "before_return (\<lambda>a b. a * b) (\<lambda>sd ct. Inr ()) (\<lambda>dl n. Inr ()) (\<lambda>m. [0..<m]) ?cfg ''data'' False Map.empty"
  have b: "fst ?b = Inr ((), None, 2, None, [(0, [0]), (1, [1])])"
    by code_simp
  then have "?b = (Inr ((), None, 2, None, [(0, [0]), (1, [1])]), snd ?b)"
    by (metis prod.collapse)
  moreover have "cfg_even_concepts ?cfg = Some True" "\<not> config_get (cfg_even_labels ?cfg) False"
      "cfg_threshold_labels ?cfg = None"
    by (simp_all add: config_get_def)
  ultimately have "generate_data (\<lambda>a b. a * b) (\<lambda>sd ct. Inr ()) (\<lambda>dl n. Inr ()) (\<lambda>m. [0..<m]) ?cfg ''data'' False
                     Map.empty = (Inl UnboundLocalError, snd ?b)"
    using even_concepts_unbound_n_tasks[of ?cfg] by blast
  with b show ?thesis by simp
qed

text \<open>
  The claim as first stated fails where an earlier step raises: with
  \<open>even_concepts\<close> true and one list of digits for two operands, the call fails
  with \<open>ValueError\<close> at the operand check.
\<close>

theorem even_concepts_value_error_counterexample:
  "fst (generate_data (\<lambda>a b. a * b) (\<lambda>sd ct. Inr ()) (\<lambda>dl n. Inr ()) (\<lambda>m. [0..<m])
          \<lparr>cfg_selected_digits = Some (Nested [[0, 1]]), cfg_num_operands = Some 2,
           cfg_even_concepts = Some True, cfg_even_labels = None, cfg_threshold_labels = None,
           cfg_sampling_percent = None, cfg_sampling_groups = None,
           cfg_weight_loss = None\<rparr> ''data'' False Map.empty)
     = Inl ValueError"
  by code_simp

lemma load_or_select_fresh:
  "rerun \<or> fs file = None \<Longrightarrow>
     load_or_select file rerun k t perm fs
       = (sort (py_take k (perm t)), fs(file \<mapsto> sort (py_take k (perm t))))"
  by (auto simp: load_or_select_def Let_def)

lemma load_or_select_again:
  "load_or_select file False k t perm fs = (s, fs1) \<Longrightarrow>
     load_or_select file False k' t' perm' fs1 = (s, fs1)"
  by (auto simp: load_or_select_def Let_def split: option.splits)

lemma subsample_groups_unfold:
  "load_or_select (rd, Selected_groups, p, n) rerun \<lceil>fmul (real (length cgm)) p\<rceil> (length cgm) perm fs
     = (s, f) \<Longrightarrow>
   subsample fmul rd p True n rerun perm cgm nc fs
     = (case rows_at (map snd cgm) s of
          Inl e \<Rightarrow> (Inl e, f)
        | Inr chosen \<Rightarrow>
            (Inr (s, sort (remdups (concat chosen)), int (length (sort (remdups (concat chosen))))), f))"
  by (simp add: subsample_def Let_def split: sum.splits)

lemma subsample_concepts_unfold:
  "load_or_select (rd, Selected_concepts, p, n) rerun \<lceil>fmul (real_of_int nc) p\<rceil> (nat nc) perm fs
     = (s, f) \<Longrightarrow>
   subsample fmul rd p False n rerun perm cgm nc fs = (Inr (s, s, \<lceil>fmul (real_of_int nc) p\<rceil>), f)"
  by (simp add: subsample_def Let_def)

lemma subsample_again:
  assumes a: "subsample fmul rd p groups n False perm cgm nc fs = (r, fs1)"
  shows "subsample fmul rd p groups n False perm' cgm nc fs1 = (r, fs1)"
proof (cases groups)
  case True
  obtain s f where l: "load_or_select (rd, Selected_groups, p, n) False
         \<lceil>fmul (real (length cgm)) p\<rceil> (length cgm) perm fs = (s, f)"
    by (cases "load_or_select (rd, Selected_groups, p, n) False
         \<lceil>fmul (real (length cgm)) p\<rceil> (length cgm) perm fs") blast
  have u: "subsample fmul rd p True n False perm cgm nc fs
     = (case rows_at (map snd cgm) s of
          Inl e \<Rightarrow> (Inl e, f)
        | Inr chosen \<Rightarrow>
            (Inr (s, sort (remdups (concat chosen)), int (length (sort (remdups (concat chosen))))), f))"
    using l by (rule subsample_groups_unfold[where fmul = fmul])
  have f: "f = fs1"
    using a True u by (cases "rows_at (map snd cgm) s") simp_all
  have l': "load_or_select (rd, Selected_groups, p, n) False
         \<lceil>fmul (real (length cgm)) p\<rceil> (length cgm) perm' fs1 = (s, fs1)"
    using load_or_select_again l f by blast
  have "subsample fmul rd p True n False perm' cgm nc fs1 = subsample fmul rd p True n False perm cgm nc fs"
    unfolding u subsample_groups_unfold[where fmul = fmul and nc = nc, OF l'] f ..
  then show ?thesis using a True by simp
next
  case False
  obtain s f where l: "load_or_select (rd, Selected_concepts, p, n) False
         \<lceil>fmul (real_of_int nc) p\<rceil> (nat nc) perm fs = (s, f)"
    by (cases "load_or_select (rd, Selected_concepts, p, n) False
         \<lceil>fmul (real_of_int nc) p\<rceil> (nat nc) perm fs") blast
  have u: "subsample fmul rd p False n False perm cgm nc fs = (Inr (s, s, \<lceil>fmul (real_of_int nc) p\<rceil>), f)"
    using l by (rule subsample_concepts_unfold[where fmul = fmul])
  have f: "f = fs1" using a False u by simp
  have l': "load_or_select (rd, Selected_concepts, p, n) False
         \<lceil>fmul (real_of_int nc) p\<rceil> (nat nc) perm' fs1 = (s, fs1)"
    using load_or_select_again l f by blast
  have "subsample fmul rd p False n False perm' cgm nc fs1 = subsample fmul rd p False n False perm cgm nc fs"
    unfolding u subsample_concepts_unfold[where fmul = fmul and cgm = cgm, OF l'] f ..
  then show ?thesis using a False by simp
qed


lemma permutation_length:
  "distinct xs \<Longrightarrow> set xs = {0..<t} \<Longrightarrow> length xs = t"
proof -
  assume "distinct xs" and "set xs = {0..<t}"
  then have "length xs = card {0..<t}" using distinct_card[of xs] by simp
  then show ?thesis by simp
qed

lemma ceiling_within:
  fixes v :: real
  assumes "0 \<le> v" "v \<le> real t"
  shows "0 \<le> \<lceil>v\<rceil>" and "\<lceil>v\<rceil> \<le> int t"
proof -
  show "0 \<le> \<lceil>v\<rceil>" using assms(1) by linarith
  show "\<lceil>v\<rceil> \<le> int t" using assms(2) by linarith
qed

lemma fresh_selection:
  assumes perm: "distinct xs" "set xs = {0..<t}" and k: "0 \<le> k" "k \<le> int t"
  defines "sel \<equiv> sort (py_take k xs)"
  shows "length sel = nat k" and "sorted sel" and "distinct sel"
    and "set sel \<subseteq> {0..<t}"
proof -
  have len: "length xs = t" using perm by (rule permutation_length)
  have pt: "py_take k xs = take (nat k) xs"
    using k by (simp add: py_take_def)
  show "length sel = nat k"
    unfolding sel_def pt using len k by simp
  show "sorted sel" unfolding sel_def by simp
  show "distinct sel" unfolding sel_def pt using perm(1) by simp
  show "set sel \<subseteq> {0..<t}"
    unfolding sel_def pt using perm(2) set_take_subset[of "nat k" xs] by simp
qed

lemma rows_at_all: "set idxs \<subseteq> {0..<length X} \<Longrightarrow> rows_at X idxs = Inr (map (\<lambda>i. X ! i) idxs)"
  by (auto simp: rows_at_def list_all_iff)

text \<open>
  Claim C7, as amended. The concept subsampler of \<open>generate_data\<close> keeps its
  selection in a file named after the directory, the kind of selection,
  \<open>sampling_percent\<close> and \<open>num_operands\<close>. When a rerun is asked or the file does
  not exist, it selects the first \<open>ceil(v)\<close> entries of a random permutation of
  the \<open>total\<close> indices (concepts, or groups in group mode), sorted, and saves
  them in the file, where \<open>v\<close> is the floating-point product
  \<open>total * sampling_percent\<close> of lines 549 and 568; these are \<open>ceil(v)\<close> indices
  when \<open>v\<close> lies between 0 and \<open>total\<close>, as it does for a sampling fraction
  between 0 and 1 (rounding is monotone, and 0 and \<open>total\<close> are doubles).
  Invoked twice with the same arguments and \<open>rerun = False\<close>, whatever the
  random generator does, the second invocation gives what the first gave and
  leaves the files alone: it loads the file.
\<close>

theorem subsample_cache:
  fixes p :: real
  assumes fname: "cache = (rd, if groups then Selected_groups else Selected_concepts, p, n)"
    and avail_def: "avail = (if groups then length cgm else nat num_concepts)"
    and sel: "sel = sort (py_take \<lceil>fmul (real avail) p\<rceil> (permutation avail))"
  shows "((rerun \<or> fs cache = None) \<and> distinct (permutation avail) \<and>
            set (permutation avail) = {0..<avail} \<and>
            0 \<le> fmul (real avail) p \<and> fmul (real avail) p \<le> real avail \<and> 0 \<le> num_concepts \<longrightarrow>
            (\<exists>sc nn. subsample fmul rd p groups n rerun permutation cgm num_concepts fs
                        = (Inr (sel, sc, nn), fs(cache \<mapsto> sel))) \<and>
            length sel = nat \<lceil>fmul (real avail) p\<rceil>) \<and>
         (\<forall>r fs1 permutation'.
            subsample fmul rd p groups n False permutation cgm num_concepts fs = (r, fs1) \<longrightarrow>
            subsample fmul rd p groups n False permutation' cgm num_concepts fs1 = (r, fs1))"
proof (intro conjI impI allI)
  assume a: "(rerun \<or> fs cache = None) \<and> distinct (permutation avail) \<and>
            set (permutation avail) = {0..<avail} \<and>
            0 \<le> fmul (real avail) p \<and> fmul (real avail) p \<le> real avail \<and> 0 \<le> num_concepts"
  then have fresh: "rerun \<or> fs cache = None" and perm: "distinct (permutation avail)"
      "set (permutation avail) = {0..<avail}"
    and v: "0 \<le> fmul (real avail) p" "fmul (real avail) p \<le> real avail"
    and nc: "0 \<le> num_concepts"
    by simp_all
  note k = ceiling_within[OF v]
  show "length sel = nat \<lceil>fmul (real avail) p\<rceil>"
    unfolding sel using fresh_selection(1)[OF perm k] .
  have sub: "set sel \<subseteq> {0..<avail}"
    unfolding sel using fresh_selection(4)[OF perm k] .
  have los: "load_or_select cache rerun k avail permutation fs
               = (sort (py_take k (permutation avail)), fs(cache \<mapsto> sort (py_take k (permutation avail))))"
    for k
    using fresh by (rule load_or_select_fresh)
  show "\<exists>sc nn. subsample fmul rd p groups n rerun permutation cgm num_concepts fs
                        = (Inr (sel, sc, nn), fs(cache \<mapsto> sel))"
  proof (cases groups)
    case True
    then have t: "avail = length cgm" and c: "cache = (rd, Selected_groups, p, n)"
      using avail_def fname by simp_all
    have "set sel \<subseteq> {0..<length (map snd cgm)}" using sub t by simp
    then have rows: "rows_at (map snd cgm) sel = Inr (map (\<lambda>i. map snd cgm ! i) sel)"
      by (rule rows_at_all)
    have l: "load_or_select (rd, Selected_groups, p, n) rerun \<lceil>fmul (real (length cgm)) p\<rceil>
                     (length cgm) permutation fs = (sel, fs(cache \<mapsto> sel))"
      using los[of "\<lceil>fmul (real (length cgm)) p\<rceil>"] unfolding sel t c .
    have "subsample fmul rd p True n rerun permutation cgm num_concepts fs
            = (Inr (sel, sort (remdups (concat (map (\<lambda>i. map snd cgm ! i) sel))),
                    int (length (sort (remdups (concat (map (\<lambda>i. map snd cgm ! i) sel)))))),
               fs(cache \<mapsto> sel))"
      unfolding subsample_groups_unfold[where fmul = fmul and nc = num_concepts, OF l] rows by simp
    then show ?thesis using True by simp
  next
    case False
    then have t: "avail = nat num_concepts" and c: "cache = (rd, Selected_concepts, p, n)"
      using avail_def fname by simp_all
    have r: "real_of_int num_concepts = real (nat num_concepts)" using nc by simp
    have l: "load_or_select (rd, Selected_concepts, p, n) rerun \<lceil>fmul (real_of_int num_concepts) p\<rceil>
                     (nat num_concepts) permutation fs = (sel, fs(cache \<mapsto> sel))"
      using los[of "\<lceil>fmul (real_of_int num_concepts) p\<rceil>"] unfolding sel t c r .
    have "subsample fmul rd p False n rerun permutation cgm num_concepts fs
            = (Inr (sel, sel, \<lceil>fmul (real_of_int num_concepts) p\<rceil>), fs(cache \<mapsto> sel))"
      by (rule subsample_concepts_unfold[where fmul = fmul and cgm = cgm, OF l])
    then show ?thesis using False by simp
  qed
next
  fix r fs1 permutation'
  assume "subsample fmul rd p groups n False permutation cgm num_concepts fs = (r, fs1)"
  then show "subsample fmul rd p groups n False permutation' cgm num_concepts fs1 = (r, fs1)"
    by (rule subsample_again)
qed

theorem subsample_cache_witness:
  "(\<exists>sc nn. subsample (\<lambda>a b. a * b) ''data'' (1 / 2) False 2 False (\<lambda>m. rev [0..<m])
               [(0, [0, 1, 2]), (1, [3])] 4 Map.empty
             = (Inr ([2, 3], sc, nn),
                Map.empty((''data'', Selected_concepts, 1 / 2, 2) \<mapsto> [2, 3]))) \<and>
   length [2, 3 :: nat] = nat \<lceil>real 4 * (1 / 2)\<rceil>"
proof -
  have c: "(''data'', Selected_concepts, 1 / 2 :: real, 2 :: int)
             = (''data'', if False then Selected_groups else Selected_concepts, 1 / 2, 2)"
    by simp
  have a: "(4 :: nat) = (if False then length [(0 :: nat, [0, 1, 2 :: nat]), (1, [3])] else nat 4)"
    by simp
  have k: "\<lceil>real 4 * (1 / 2)\<rceil> = 2" by simp
  have s: "[2, 3] = sort (py_take \<lceil>(\<lambda>a b. a * b) (real 4) (1 / 2)\<rceil> ((\<lambda>m. rev [0..<m]) 4))"
    unfolding k by code_simp
  have pre: "(False \<or> Map.empty (''data'', Selected_concepts, 1 / 2 :: real, 2 :: int) = None) \<and>
             distinct ((\<lambda>m. rev [0..<m]) 4) \<and> set ((\<lambda>m. rev [0..<m]) 4) = {0..<4} \<and>
             (0 :: real) \<le> (\<lambda>a b. a * b) (real 4) (1 / 2) \<and>
             (\<lambda>a b. a * b) (real 4) (1 / 2 :: real) \<le> real 4 \<and> (0 :: int) \<le> 4"
    by simp
  note t = subsample_cache[where permutation = "\<lambda>m. rev [0..<m]" and avail = 4 and sel = "[2, 3]"
      and groups = False and rd = "''data''" and p = "1 / 2" and n = 2 and num_concepts = 4
      and cgm = "[(0, [0, 1, 2]), (1, [3])]" and rerun = False and fs = Map.empty
      and fmul = "\<lambda>a b. a * b"
      and cache = "(''data'', Selected_concepts, 1 / 2, 2)", OF c a s]
  from t pre show ?thesis by blast
qed

text \<open>
  The claim as first stated takes the ceiling of the product \<open>p \<times> total\<close>
  itself. With 3 concepts and \<open>sampling_percent = 0.33333333333333337\<close>, the
  double \<open>3002399751580331 / 2\<^sup>5\<^sup>3\<close>, the product is \<open>1 + 2\<^sup>-\<^sup>5\<^sup>3\<close> and its ceiling
  is 2; the double product \<open>3 * 0.33333333333333337\<close> is \<open>1.0\<close> (a tie, rounded
  to the even neighbour), and one index is selected.
\<close>

theorem subsample_exact_ceiling_counterexample:
  "fst (subsample
          (\<lambda>a b. if a = 3 \<and> b = 3002399751580331 / 9007199254740992 then 1 else a * b)
          ''data'' (3002399751580331 / 9007199254740992) False 3 False (\<lambda>m. [0..<m])
          [(0, [0]), (1, [1]), (2, [2])] 3 Map.empty)
     = Inr ([0], [0], 1) \<and>
   \<lceil>(3002399751580331 / 9007199254740992 :: real) * 3\<rceil> = 2"
proof -
  have a: "fst (subsample
          (\<lambda>a b. if a = 3 \<and> b = 3002399751580331 / 9007199254740992 then 1 else a * b)
          ''data'' (3002399751580331 / 9007199254740992) False 3 False (\<lambda>m. [0..<m])
          [(0, [0]), (1, [1]), (2, [2])] 3 Map.empty)
     = Inr ([0], [0], 1)"
    by code_simp
  have b: "\<lceil>(3002399751580331 / 9007199254740992 :: real) * 3\<rceil> = 2"
    by linarith
  show ?thesis using a b by simp
qed

section \<open>Facts about the concept-group map\<close>
























end
